theory Spec2Isabelle
  imports Main "HOL-Library.Product_Lexorder" "HOL-Library.Multiset"
begin

section \<open>Entity store (audit/models.py)\<close>

text \<open>
  The models of \<^verbatim>\<open>audit/models.py\<close> as records. Primary keys are integers. A column declared
  \<^verbatim>\<open>null=True\<close> holds a \<open>string option\<close>. A calendar date is the triple (year, month, day).
\<close>

type_synonym date = "int \<times> int \<times> int"

record client =
  client_id :: int
  name :: string
  contact_name :: "string option"
  contact_email :: "string option"
  contact_phone :: "string option"
  address :: "string option"

record project =
  project_id :: int
  title :: string
  permit_number :: string
  location :: string
  project_client :: int

text \<open>
  A \<^verbatim>\<open>DecimalField\<close> value is a finite decimal: a signed coefficient and a power of ten,
  so \<open>7550\<close> with exponent \<open>-2\<close> is 75.50.
\<close>

record decimal =
  coefficient :: int
  exponent :: int

record audit =
  audit_id :: int
  audit_project :: int
  audit_date :: date
  audit_type :: string
  audit_number :: string
  performed_by :: string
  report_number :: string
  overall_score_percentage :: decimal
  standard_required :: decimal
  improvement_notices :: int
  contravention_notices :: int
  prohibition_notices :: int

text \<open>
  The checklist models that declare \<^verbatim>\<open>unique_together\<close> on the audit and the item-type code.
  The code column is called \<^verbatim>\<open>appointment_type\<close> in LegalAppointment, \<^verbatim>\<open>document_type\<close> in
  OHSDocumentation, \<^verbatim>\<open>register_type\<close> in InspectionRegister and \<^verbatim>\<open>item_type\<close> in the others;
  the record calls it \<open>item_type\<close> throughout.
\<close>

datatype category =
    LegalAppointment | OHSDocumentation | TrainingCommunication | InspectionRegister
  | PublicSafetySecurity | EmployeeProtection | FirePrevention | OccupationalHealth
  | IncidentManagement | IntoxicationManagement | TrafficAccommodation

definition all_categories :: "category list" where
  "all_categories =
     [LegalAppointment, OHSDocumentation, TrainingCommunication, InspectionRegister,
      PublicSafetySecurity, EmployeeProtection, FirePrevention, OccupationalHealth,
      IncidentManagement, IntoxicationManagement, TrafficAccommodation]"

record checklist_row =
  row_id :: int
  row_audit :: int
  item_type :: string
  required_score :: int
  actual_score :: int
  appointed_person :: "string option"
  comments :: "string option"

record store =
  clients :: "client list"
  projects :: "project list"
  audits :: "audit list"
  checklist :: "category \<Rightarrow> checklist_row list"

datatype integrity_error = UniqueViolation | ForeignKeyViolation

text \<open>The next value of an integer primary key: one more than the largest key in the table.\<close>

definition next_id :: "int list \<Rightarrow> int" where
  "next_id ids = fold max ids 0 + 1"

text \<open>
  The key of \<^verbatim>\<open>unique_together = ['audit', 'item_type']\<close> (and its renamed variants).
\<close>

definition unique_key :: "checklist_row \<Rightarrow> int \<times> string" where
  "unique_key r = (row_audit r, item_type r)"

text \<open>
  Inserting a row of one checklist table, as \<^verbatim>\<open>Model.objects.create\<close> does: the database checks
  the foreign key to the audit and the \<^verbatim>\<open>unique_together\<close> constraint, and raises IntegrityError
  when one fails; otherwise the row is stored under a generated primary key. The choices of
  the code column are not checked by an insert (they belong to form validation).
\<close>

definition insert_row :: "category \<Rightarrow> checklist_row \<Rightarrow> store \<Rightarrow> integrity_error + store" where
  "insert_row c r s =
     (if row_audit r \<notin> set (map audit_id (audits s)) then Inl ForeignKeyViolation
      else if unique_key r \<in> set (map unique_key (checklist s c)) then Inl UniqueViolation
      else Inr (s\<lparr>checklist := (checklist s)
                  (c := checklist s c @ [r\<lparr>row_id := next_id (map row_id (checklist s c))\<rparr>])\<rparr>))"

text \<open>At most one row per (audit, item type) pair in every checklist table.\<close>

definition unique_per_audit :: "store \<Rightarrow> bool" where
  "unique_per_audit s = list_all (\<lambda>c. distinct (map unique_key (checklist s c))) all_categories"

section \<open>Dashboard pagination (ReportDashboard.get_context_data)\<close>

text \<open>
  \<^verbatim>\<open>order_by('-audit_date')\<close>: the audits by descending date. The database leaves the order
  of audits of one date open; the model lists them in reverse table order.
\<close>

fun insort_desc :: "audit \<Rightarrow> audit list \<Rightarrow> audit list" where
  "insort_desc a [] = [a]"
| "insort_desc a (b # bs) =
     (if audit_date b < audit_date a then a # b # bs else b # insort_desc a bs)"

definition order_by_audit_date_desc :: "audit list \<Rightarrow> audit list" where
  "order_by_audit_date_desc xs = foldr insort_desc xs []"











text \<open>A store with one audit and no checklist rows, and a LegalAppointment row for it.\<close>

definition sample_audit :: audit where
  "sample_audit = \<lparr>audit_id = 1, audit_project = 1, audit_date = (2026, 1, 1), audit_type = ''OHS'',
     audit_number = ''001'', performed_by = ''Tester'', report_number = ''R-001'',
     overall_score_percentage = \<lparr>coefficient = 8000, exponent = -2\<rparr>,
     standard_required = \<lparr>coefficient = 7500, exponent = -2\<rparr>,
     improvement_notices = 0, contravention_notices = 0, prohibition_notices = 0\<rparr>"

definition sample_row :: "int \<Rightarrow> checklist_row" where
  "sample_row score = \<lparr>row_id = 0, row_audit = 1, item_type = ''HCA'', required_score = 2,
     actual_score = score, appointed_person = None, comments = None\<rparr>"

definition one_audit_store :: store where
  "one_audit_store = \<lparr>clients = [], projects = [], audits = [sample_audit], checklist = (\<lambda>c. [])\<rparr>"

text \<open>
  A reading of plain digit strings, standing for Python's \<^verbatim>\<open>int\<close> in examples, and a store
  of 25 audits.
\<close>

definition digit_of :: "char \<Rightarrow> int option" where
  "digit_of = map_of (zip ''0123456789'' [0, 1, 2, 3, 4, 5, 6, 7, 8, 9])"

fun digits_value :: "int \<Rightarrow> string \<Rightarrow> int option" where
  "digits_value acc [] = Some acc"
| "digits_value acc (c # cs) =
     (case digit_of c of None \<Rightarrow> None | Some d \<Rightarrow> digits_value (10 * acc + d) cs)"

definition digits_int :: "string \<Rightarrow> int option" where
  "digits_int t = (if t = [] then None else digits_value 0 t)"


section \<open>Requests and responses (audit/views.py)\<close>

text \<open>
  A value of a decoded JSON body. A float carries whether it is non-zero and an array or
  object whether it is non-empty, each with the text Python's \<^verbatim>\<open>str\<close> gives for it.
\<close>

datatype jval =
  JNull | JBool bool | JInt int | JStr string | JFloat bool string | JCompound bool string

text \<open>Python's truth value, as used by \<^verbatim>\<open>x or ''\<close> and \<^verbatim>\<open>not x\<close>.\<close>

fun truthy :: "jval \<Rightarrow> bool" where
  "truthy JNull = False"
| "truthy (JBool b) = b"
| "truthy (JInt n) = (n \<noteq> 0)"
| "truthy (JStr t) = (t \<noteq> [])"
| "truthy (JFloat nonzero t) = nonzero"
| "truthy (JCompound nonempty t) = nonempty"

definition py_or :: "jval \<Rightarrow> jval \<Rightarrow> jval" where
  "py_or v d = (if truthy v then v else d)"

text \<open>Decimal text of an integer, as \<^verbatim>\<open>str\<close> and f-strings give it.\<close>

fun str_nat :: "nat \<Rightarrow> string" where
  "str_nat n =
     (if n < 10 then [''0123456789'' ! n]
      else str_nat (n div 10) @ [''0123456789'' ! (n mod 10)])"

declare str_nat.simps [simp del]

definition str_int :: "int \<Rightarrow> string" where
  "str_int i = (if i < 0 then CHR ''-'' # str_nat (nat (- i)) else str_nat (nat i))"

fun py_str :: "jval \<Rightarrow> string" where
  "py_str JNull = ''None''"
| "py_str (JBool b) = (if b then ''True'' else ''False'')"
| "py_str (JInt n) = str_int n"
| "py_str (JStr t) = t"
| "py_str (JFloat nonzero t) = t"
| "py_str (JCompound nonempty t) = t"

text \<open>
  \<^verbatim>\<open>str.strip()\<close>: the characters below 256 that Python counts as whitespace are removed at
  both ends.
\<close>

definition is_space :: "char \<Rightarrow> bool" where
  "is_space c =
     (let n = (of_char c :: nat)
      in (9 \<le> n \<and> n \<le> 13) \<or> (28 \<le> n \<and> n \<le> 32) \<or> n = 133 \<or> n = 160)"

definition strip :: "string \<Rightarrow> string" where
  "strip t = rev (dropWhile is_space (rev (dropWhile is_space t)))"

text \<open>
  What \<^verbatim>\<open>json.loads(request.body.decode('utf-8') or '{}')\<close> gives: an exception, None, a value
  that is no dict, or a dict. \<^verbatim>\<open>payload.get(k)\<close> is None for a missing key.
\<close>

datatype body = Malformed | Null | NonDict | Dict "string \<rightharpoonup> jval"

definition dict_get :: "(string \<rightharpoonup> jval) \<Rightarrow> string \<Rightarrow> jval" where
  "dict_get payload k = (case payload k of None \<Rightarrow> JNull | Some v \<Rightarrow> v)"

record request =
  content_type :: string
  body :: body
  POST :: "string \<rightharpoonup> string"
  x_requested_with :: "string option"
  origin :: string

text \<open>
  The value under one key of an \<^verbatim>\<open>errors\<close> object: a single message, a list of messages, or
  the errors of a form field. A form error is kept as the code of its ValidationError; the
  response carries the message of that code.
\<close>

datatype field_error =
    Required | Invalid | InvalidChoice | MaxLength | NullCharacters | MinValue | MaxValue
  | MaxDigits | MaxDecimalPlaces | MaxWholeDigits

datatype err_value = Message string | Messages "string list" | Codes "field_error list"

text \<open>
  \<open>JsonSuccess extra\<close> is \<^verbatim>\<open>JsonResponse({'success': True, **extra})\<close> with status 200,
  \<open>JsonFailure status errors\<close> is \<^verbatim>\<open>JsonResponse({'success': False, 'errors': errors}, status)\<close>,
  \<open>Redirect url flashed\<close> a redirect after the calls of \<^verbatim>\<open>messages.error\<close>, \<open>NotFound\<close> the
  Http404 of \<^verbatim>\<open>get_object_or_404\<close> and \<open>ServerError\<close> an exception that leaves the view.
\<close>

datatype response =
    JsonSuccess "(string \<times> jval) list"
  | JsonFailure int "(string \<times> err_value) list"
  | Redirect string "string list"
  | NotFound
  | ServerError

text \<open>
  \<^verbatim>\<open>reverse(name, args)\<close> depends on the root URL configuration, which is not part of the
  application: it is a parameter, None where it raises NoReverseMatch.
  \<^verbatim>\<open>redirect('audit:index')\<close> resolves the name with it.
\<close>

type_synonym reverse = "string \<Rightarrow> int list \<Rightarrow> string option"

definition redirect :: "reverse \<Rightarrow> string \<Rightarrow> string list \<Rightarrow> response" where
  "redirect reverse' to flashed =
     (case reverse' to [] of None \<Rightarrow> ServerError | Some url \<Rightarrow> Redirect url flashed)"

section \<open>Login (LoginAjaxView.post)\<close>

record user =
  user_name :: string
  is_active :: bool

text \<open>
  \<^verbatim>\<open>authenticate(request, username, password)\<close> is Django's and a parameter of the view: the
  user whose credentials match, or None. The password of a JSON body is passed as it was
  decoded.
\<close>

type_synonym authenticate = "string \<Rightarrow> jval \<Rightarrow> user option"

text \<open>
  The first part of the view: username and password from the JSON body or the form. A
  response on the left ends the request.
\<close>

definition is_json :: "request \<Rightarrow> bool" where
  "is_json req = (content_type req = ''application/json'')"

definition credentials :: "request \<Rightarrow> response + string \<times> jval" where
  "credentials req =
     (if is_json req then
        (case body req of
           Malformed \<Rightarrow>
             Inl (JsonFailure 400 [(''__all__'', Message ''Invalid request payload.'')])
         | Dict payload \<Rightarrow>
             (case py_or (dict_get payload ''username'') (JStr '''') of
                JStr u \<Rightarrow> Inr (strip u, py_or (dict_get payload ''password'') (JStr ''''))
              | _ \<Rightarrow> Inl ServerError)
         | _ \<Rightarrow> Inl ServerError)
      else
        Inr (strip (case POST req ''username'' of None \<Rightarrow> '''' | Some u \<Rightarrow> u),
             JStr (case POST req ''password'' of None \<Rightarrow> '''' | Some p \<Rightarrow> p)))"

definition login_post ::
  "authenticate \<Rightarrow> reverse \<Rightarrow> request \<Rightarrow> user option \<Rightarrow> response \<times> user option" where
  "login_post authenticate' reverse' req session =
     (case credentials req of
        Inl r \<Rightarrow> (r, session)
      | Inr (username, password) \<Rightarrow>
          let errors =
                (if username = [] then [(''username'', Message ''Please enter your username.'')]
                 else [])
                @ (if \<not> truthy password
                   then [(''password'', Message ''Please enter your password.'')] else [])
          in if errors \<noteq> [] then
               (if \<not> is_json req
                then redirect reverse' ''audit:index''
                       (map (\<lambda>(k, v). case v of Message m \<Rightarrow> m | _ \<Rightarrow> []) errors)
                else JsonFailure 400 errors, session)
             else
               (case authenticate' username password of
                  None \<Rightarrow>
                    (if \<not> is_json req
                     then redirect reverse' ''audit:index'' [''Invalid username or password.'']
                     else JsonFailure 400
                            [(''__all__'', Message ''Invalid username or password.'')], session)
                | Some u \<Rightarrow>
                    if \<not> is_active u then
                      (if \<not> is_json req
                       then redirect reverse' ''audit:index'' [''This account is inactive.'']
                       else JsonFailure 400
                              [(''__all__'', Message ''This account is inactive.'')], session)
                    else
                      let redirect_url =
                            (case reverse' ''audit:dashboard'' [] of
                               Some url \<Rightarrow> url | None \<Rightarrow> ''/dash/'')
                      in (if is_json req \<or> x_requested_with req = Some ''XMLHttpRequest''
                          then JsonSuccess [(''redirect'', JStr redirect_url)]
                          else Redirect redirect_url [], Some u)))"

text \<open>
  Django's default authentication backend, \<^verbatim>\<open>ModelBackend\<close>, over a table of accounts (user
  name, password, active flag), for a password that is a string: the user is returned when
  the name is known, the password matches and \<^verbatim>\<open>user_can_authenticate\<close> holds, that is, the
  account is active. The application configures no other backend.
\<close>

definition model_backend :: "(string \<times> string \<times> bool) list \<Rightarrow> authenticate" where
  "model_backend accounts username password =
     (case map_of accounts username of
        None \<Rightarrow> None
      | Some (pw, active) \<Rightarrow>
          if password = JStr pw \<and> active
          then Some \<lparr>user_name = username, is_active = active\<rparr> else None)"

definition json_request :: "(string \<rightharpoonup> jval) \<Rightarrow> request" where
  "json_request payload =
     \<lparr>content_type = ''application/json'', body = Dict payload, POST = Map.empty,
      x_requested_with = None, origin = ''https://audit.example''\<rparr>"

definition app_urls :: reverse where
  "app_urls route args =
     (if route = ''audit:index'' \<and> args = [] then Some ''/''
      else if route = ''audit:dashboard'' \<and> args = [] then Some ''/dashboard/''
      else case args of
             [pk] \<Rightarrow> if route = ''audit:report-detail''
                     then Some (''/reports/'' @ str_int pk @ ''/'') else None
           | _ \<Rightarrow> None)"

definition accounts0 :: "(string \<times> string \<times> bool) list" where
  "accounts0 = [(''alice'', ''s3cret'', True), (''bob'', ''hunter2'', False)]"

section \<open>Sharing a report by email (AuditShareAjaxView.post)\<close>

text \<open>
  The method body of the view, which \<^verbatim>\<open>LoginRequiredMixin\<close> lets an authenticated request
  reach. Three parts of it are Django's and parameters here: \<^verbatim>\<open>validate_email\<close> (True where
  it accepts the address), \<^verbatim>\<open>send_mail\<close> (None where it returns, \<open>Some e\<close> where it raises an
  exception whose text is \<open>e\<close>) and the two mail settings. A message that was sent is added
  to the outbox.
\<close>

record email =
  mail_subject :: string
  mail_body :: string
  from_email :: string
  recipient_list :: "string list"

record settings =
  DEFAULT_FROM_EMAIL :: "string option"
  SERVER_EMAIL :: "string option"

definition get_object_or_404 :: "store \<Rightarrow> int \<Rightarrow> audit option" where
  "get_object_or_404 s pk = find (\<lambda>a. audit_id a = pk) (audits s)"

text \<open>\<^verbatim>\<open>request.build_absolute_uri(path)\<close> for a path that starts with a slash.\<close>

definition build_absolute_uri :: "request \<Rightarrow> string \<Rightarrow> string" where
  "build_absolute_uri req path = origin req @ path"

definition report_url :: "reverse \<Rightarrow> request \<Rightarrow> audit \<Rightarrow> string" where
  "report_url reverse' req a =
     (case reverse' ''audit:report-detail'' [audit_id a] of
        Some path \<Rightarrow> build_absolute_uri req path
      | None \<Rightarrow> build_absolute_uri req (''/reports/'' @ str_int (audit_id a) @ ''/''))"

definition sender :: "settings \<Rightarrow> string" where
  "sender cfg =
     (case DEFAULT_FROM_EMAIL cfg of
        Some d \<Rightarrow> if d \<noteq> [] then d
                  else (case SERVER_EMAIL cfg of
                          Some e \<Rightarrow> if e \<noteq> [] then e else ''no-reply@localhost''
                        | None \<Rightarrow> ''no-reply@localhost'')
      | None \<Rightarrow> (case SERVER_EMAIL cfg of
                   Some e \<Rightarrow> if e \<noteq> [] then e else ''no-reply@localhost''
                 | None \<Rightarrow> ''no-reply@localhost''))"

text \<open>The message the view composes for a recipient and the payload's message text.\<close>

definition share_mail :: "settings \<Rightarrow> reverse \<Rightarrow> request \<Rightarrow> audit \<Rightarrow> string \<Rightarrow> string \<Rightarrow> email" where
  "share_mail cfg reverse' req a to_email message =
     \<lparr>mail_subject = ''Audit Report: '' @ report_number a,
      mail_body = message @ [CHR 0x0A, CHR 0x0A] @ ''View the report: '' @ report_url reverse' req a,
      from_email = sender cfg,
      recipient_list = [to_email]\<rparr>"

definition share_post ::
  "(string \<Rightarrow> bool) \<Rightarrow> (email \<Rightarrow> string option) \<Rightarrow> settings \<Rightarrow> reverse \<Rightarrow> store \<Rightarrow>
   request \<Rightarrow> int \<Rightarrow> email list \<Rightarrow> response \<times> email list" where
  "share_post validate_email send_mail cfg reverse' s req pk outbox =
     (case get_object_or_404 s pk of
        None \<Rightarrow> (NotFound, outbox)
      | Some a \<Rightarrow>
          if content_type req \<noteq> ''application/json'' then
            (JsonFailure 400 [(''__all__'', Message ''Expected JSON payload.'')], outbox)
          else
            (case body req of
               Malformed \<Rightarrow>
                 (JsonFailure 400 [(''__all__'', Message ''Invalid JSON payload.'')], outbox)
             | Dict payload \<Rightarrow>
                 (case py_or (dict_get payload ''to_email'') (JStr '''') of
                    JStr t \<Rightarrow>
                      let to_email = strip t;
                          message = (case payload ''message'' of None \<Rightarrow> '''' | Some v \<Rightarrow> py_str v)
                      in if to_email = [] then
                           (JsonFailure 400
                              [(''to_email'', Messages [''Recipient email required.''])], outbox)
                         else if \<not> validate_email to_email then
                           (JsonFailure 400
                              [(''to_email'', Messages [''Enter a valid email address.''])], outbox)
                         else
                           let m = share_mail cfg reverse' req a to_email message
                           in (case send_mail m of
                                 None \<Rightarrow> (JsonSuccess [], outbox @ [m])
                               | Some e \<Rightarrow>
                                   (JsonFailure 500
                                      [(''__all__'', Message (''Failed to send email: '' @ e))],
                                    outbox))
                  | _ \<Rightarrow> (ServerError, outbox))
             | _ \<Rightarrow> (ServerError, outbox)))"

text \<open>
  The recipient the view reads from a JSON payload, None where reading it raises.
\<close>

definition recipient :: "(string \<rightharpoonup> jval) \<Rightarrow> string option" where
  "recipient payload =
     (case py_or (dict_get payload ''to_email'') (JStr '''') of
        JStr t \<Rightarrow> Some (strip t) | _ \<Rightarrow> None)"

text \<open>
  Stand-ins for examples: an address check that asks for one \<open>@\<close> with a dot after it, a
  transport that delivers, one that fails, and empty mail settings.
\<close>

definition simple_email_check :: "string \<Rightarrow> bool" where
  "simple_email_check t =
     (case dropWhile (\<lambda>c. c \<noteq> CHR ''@'') t of
        [] \<Rightarrow> False
      | at # domain \<Rightarrow> takeWhile (\<lambda>c. c \<noteq> CHR ''@'') t \<noteq> [] \<and> CHR ''.'' \<in> set domain
                       \<and> CHR ''@'' \<notin> set domain \<and> list_all (\<lambda>c. \<not> is_space c) t)"

definition delivering :: "email \<Rightarrow> string option" where
  "delivering m = None"

definition refusing :: "email \<Rightarrow> string option" where
  "refusing m = Some ''Connection refused''"

definition no_settings :: settings where
  "no_settings = \<lparr>DEFAULT_FROM_EMAIL = None, SERVER_EMAIL = None\<rparr>"

definition share_request :: "string \<Rightarrow> request" where
  "share_request addr =
     json_request [''to_email'' \<mapsto> JStr addr, ''message'' \<mapsto> JStr ''Please see report'']"

section \<open>Form fields (django.forms, as audit/forms.py configures them)\<close>

text \<open>
  Django's \<^verbatim>\<open>EMPTY_VALUES\<close>: None, the empty string and the empty list, tuple and dict.
\<close>

fun in_empty_values :: "jval \<Rightarrow> bool" where
  "in_empty_values JNull = True"
| "in_empty_values (JStr t) = (t = [])"
| "in_empty_values (JCompound nonempty t) = (\<not> nonempty)"
| "in_empty_values v = False"

text \<open>
  A \<^verbatim>\<open>forms.CharField\<close> that is not required: the input becomes text and is stripped; empty
  input gives the field's \<^verbatim>\<open>empty_value\<close> and skips the validators; otherwise the extra
  validators run first, then the length limit (when the field has one) and the ban on null
  characters. The result is the list of error codes and the cleaned value.
\<close>

definition char_clean ::
  "nat option \<Rightarrow> string option \<Rightarrow> (string \<Rightarrow> field_error list) \<Rightarrow> jval
   \<Rightarrow> field_error list \<times> string option" where
  "char_clean max_length empty_value validators v =
     (if in_empty_values v then ([], empty_value)
      else let t = strip (py_str v)
           in if t = [] then ([], empty_value)
              else (validators t
                    @ (case max_length of
                         None \<Rightarrow> []
                       | Some n \<Rightarrow> if length t > n then [MaxLength] else [])
                    @ (if CHR 0x00 \<in> set t then [NullCharacters] else []),
                    Some t))"

section \<open>Updating a client (ClientForm, ClientUpdateAjaxView.post)\<close>

text \<open>
  \<^verbatim>\<open>ClientForm.Meta.fields\<close>. The model declares the three character columns with
  \<^verbatim>\<open>null=True\<close>, so their form fields have the empty value None; the address is a TextField,
  whose form field has the empty value \<^verbatim>\<open>''\<close> and no length limit. An EmailField has the
  length limit 254 and the validator \<^verbatim>\<open>validate_email\<close>, a parameter.
\<close>

definition client_form_fields :: "string list" where
  "client_form_fields = [''contact_name'', ''contact_email'', ''contact_phone'', ''address'']"

definition client_form_clean ::
  "(string \<Rightarrow> bool) \<Rightarrow> (string \<Rightarrow> jval) \<Rightarrow> (string \<times> field_error list \<times> string option) list" where
  "client_form_clean validate_email data =
     [(''contact_name'', char_clean (Some 200) None (\<lambda>t. []) (data ''contact_name'')),
      (''contact_email'',
         char_clean (Some 254) None (\<lambda>t. if validate_email t then [] else [Invalid])
           (data ''contact_email'')),
      (''contact_phone'', char_clean (Some 50) None (\<lambda>t. []) (data ''contact_phone'')),
      (''address'', char_clean None (Some '''') (\<lambda>t. []) (data ''address''))]"

text \<open>\<^verbatim>\<open>form.errors\<close>: the fields that have errors, with their errors.\<close>

definition form_errors ::
  "(string \<times> field_error list \<times> 'a) list \<Rightarrow> (string \<times> err_value) list" where
  "form_errors cleaned =
     map (\<lambda>(k, errs, v). (k, Codes errs)) (filter (\<lambda>(k, errs, v). errs \<noteq> []) cleaned)"

text \<open>
  \<^verbatim>\<open>form.save()\<close>: the four cleaned values are written to the instance; its other columns
  keep their values.
\<close>

definition cleaned_value :: "(string \<times> field_error list \<times> string option) list \<Rightarrow> string \<Rightarrow> string option" where
  "cleaned_value cleaned k = (case map_of cleaned k of None \<Rightarrow> None | Some (errs, v) \<Rightarrow> v)"

definition client_form_save ::
  "(string \<times> field_error list \<times> string option) list \<Rightarrow> client \<Rightarrow> client" where
  "client_form_save cleaned c =
     c\<lparr>contact_name := cleaned_value cleaned ''contact_name'',
       contact_email := cleaned_value cleaned ''contact_email'',
       contact_phone := cleaned_value cleaned ''contact_phone'',
       address := cleaned_value cleaned ''address''\<rparr>"

definition get_client_or_404 :: "store \<Rightarrow> int \<Rightarrow> client option" where
  "get_client_or_404 s pk = find (\<lambda>c. client_id c = pk) (clients s)"

definition save_client :: "client \<Rightarrow> store \<Rightarrow> store" where
  "save_client c s =
     s\<lparr>clients := map (\<lambda>old. if client_id old = client_id c then c else old) (clients s)\<rparr>"

text \<open>
  The data the form is bound to: for a JSON body the dict \<^verbatim>\<open>allowed\<close>, which has the four
  keys and \<^verbatim>\<open>payload.get(k)\<close> under each; otherwise \<^verbatim>\<open>request.POST\<close>. The form reads each of
  its fields with \<^verbatim>\<open>data.get(name)\<close>.
\<close>

definition allowed :: "(string \<rightharpoonup> jval) \<Rightarrow> string \<Rightarrow> jval" where
  "allowed payload k = (if k \<in> set client_form_fields then dict_get payload k else JNull)"

definition post_data :: "request \<Rightarrow> string \<Rightarrow> jval" where
  "post_data req k = (case POST req k of None \<Rightarrow> JNull | Some t \<Rightarrow> JStr t)"

definition client_update_post ::
  "(string \<Rightarrow> bool) \<Rightarrow> store \<Rightarrow> request \<Rightarrow> int \<Rightarrow> response \<times> store" where
  "client_update_post validate_email s req pk =
     (case get_client_or_404 s pk of
        None \<Rightarrow> (NotFound, s)
      | Some c \<Rightarrow>
          (case (if content_type req = ''application/json'' then
                   (case body req of
                      Malformed \<Rightarrow>
                        Inl (JsonFailure 400 [(''__all__'', Message ''Invalid JSON payload.'')])
                    | Dict payload \<Rightarrow> Inr (allowed payload)
                    | _ \<Rightarrow> Inl ServerError)
                 else Inr (post_data req)) of
             Inl r \<Rightarrow> (r, s)
           | Inr data \<Rightarrow>
               let cleaned = client_form_clean validate_email data
               in if form_errors cleaned = [] then
                    (JsonSuccess [], save_client (client_form_save cleaned c) s)
                  else (JsonFailure 400 (form_errors cleaned), s)))"

text \<open>A client for examples, and the store that holds it.\<close>

definition acme :: client where
  "acme = \<lparr>client_id = 1, name = ''ACME'', contact_name = Some ''Client Contact'',
     contact_email = Some ''client@example.com'', contact_phone = Some ''012345'',
     address = Some ''1 Main Road''\<rparr>"

definition acme_store :: store where
  "acme_store = \<lparr>clients = [acme], projects = [], audits = [], checklist = (\<lambda>c. [])\<rparr>"

text \<open>A payload that sets all four fields of the allow-list.\<close>

definition update_payload :: "string \<rightharpoonup> jval" where
  "update_payload =
     [''contact_name'' \<mapsto> JStr ''New Contact'', ''contact_email'' \<mapsto> JStr ''new@example.com'',
      ''contact_phone'' \<mapsto> JStr ''012345'', ''address'' \<mapsto> JStr ''New Address'']"

section \<open>Creating an audit (AuditModelForm, AuditCreateView.post)\<close>

text \<open>
  The conversions of Django's form fields from text are parameters: the primary key that
  \<^verbatim>\<open>Project.objects.get(pk=value)\<close> looks up, the date \<^verbatim>\<open>strptime\<close> reads, the finite Decimal
  of a text and the integer of a text, each None where the conversion fails; and the range
  the database backend gives an IntegerField (a bound may be missing).
\<close>

record conversions =
  to_pk :: "jval \<Rightarrow> int option"
  to_date :: "string \<Rightarrow> date option"
  to_decimal :: "string \<Rightarrow> decimal option"
  to_int :: "string \<Rightarrow> int option"
  integer_field_range :: "int option \<times> int option"

text \<open>
  The outcome of cleaning one field: an exception that leaves the form, a list of error
  codes, or the cleaned value.
\<close>

datatype 'a cleaned = Raises | Errors "field_error list" | Clean 'a

fun errors_of :: "'a cleaned \<Rightarrow> field_error list" where
  "errors_of (Errors errs) = errs"
| "errors_of c = []"

text \<open>Comparison of a decimal with an integer, as the value validators compare.\<close>

definition dec_less :: "decimal \<Rightarrow> int \<Rightarrow> bool" where
  "dec_less d n =
     (if exponent d \<ge> 0 then coefficient d * 10 ^ nat (exponent d) < n
      else coefficient d < n * 10 ^ nat (- exponent d))"

definition dec_greater :: "decimal \<Rightarrow> int \<Rightarrow> bool" where
  "dec_greater d n =
     (if exponent d \<ge> 0 then coefficient d * 10 ^ nat (exponent d) > n
      else coefficient d > n * 10 ^ nat (- exponent d))"

text \<open>
  \<^verbatim>\<open>DecimalValidator(max_digits, decimal_places)\<close>: the digits of the coefficient and the
  exponent give the numbers of digits, of decimals and of whole digits; the first limit that
  is exceeded is reported.
\<close>

definition decimal_validator :: "nat \<Rightarrow> nat \<Rightarrow> decimal \<Rightarrow> field_error list" where
  "decimal_validator max_digits decimal_places d =
     (let digit_tuple = str_nat (nat \<bar>coefficient d\<bar>);
          (digits, decimals) =
            (if exponent d \<ge> 0 then
               (if digit_tuple \<noteq> ''0'' then length digit_tuple + nat (exponent d)
                else length digit_tuple, 0)
             else if nat \<bar>exponent d\<bar> > length digit_tuple
               then (nat \<bar>exponent d\<bar>, nat \<bar>exponent d\<bar>)
               else (length digit_tuple, nat \<bar>exponent d\<bar>));
          whole_digits = int digits - int decimals
      in if digits > max_digits then [MaxDigits]
         else if decimals > decimal_places then [MaxDecimalPlaces]
         else if whole_digits > int max_digits - int decimal_places then [MaxWholeDigits]
         else [])"

text \<open>
  The fields of \<^verbatim>\<open>AuditModelForm\<close>; the model declares none of them \<^verbatim>\<open>blank=True\<close>, so all are
  required. \<^verbatim>\<open>project\<close> is a ModelChoiceField over the projects of the store.
\<close>

definition project_clean :: "conversions \<Rightarrow> store \<Rightarrow> jval \<Rightarrow> int cleaned" where
  "project_clean conv s v =
     (if in_empty_values v then Errors [Required]
      else case to_pk conv v of
             None \<Rightarrow> Errors [InvalidChoice]
           | Some k \<Rightarrow>
               if k \<in> set (map project_id (projects s)) then Clean k else Errors [InvalidChoice])"

text \<open>
  \<^verbatim>\<open>audit_date\<close> is a DateField: its conversion begins with \<^verbatim>\<open>value.strip()\<close>, which raises
  for an input that is not a string.
\<close>

definition date_clean :: "conversions \<Rightarrow> jval \<Rightarrow> date cleaned" where
  "date_clean conv v =
     (if in_empty_values v then Errors [Required]
      else case v of
             JStr t \<Rightarrow> (case to_date conv (strip t) of
                          None \<Rightarrow> Errors [Invalid] | Some d \<Rightarrow> Clean d)
           | _ \<Rightarrow> Raises)"

text \<open>\<^verbatim>\<open>audit_type\<close> is a choice among the codes of \<^verbatim>\<open>Audit.AUDIT_TYPES\<close>.\<close>

definition AUDIT_TYPES :: "(string \<times> string) list" where
  "AUDIT_TYPES =
     [(''OHS'', ''Occupational Health & Safety Audit''),
      (''ENV'', ''Environmental Audit''),
      (''QUAL'', ''Quality Audit'')]"

definition choice_clean :: "(string \<times> string) list \<Rightarrow> jval \<Rightarrow> string cleaned" where
  "choice_clean choices v =
     (if in_empty_values v then Errors [Required]
      else if py_str v \<in> set (map fst choices) then Clean (py_str v)
      else Errors [InvalidChoice])"

text \<open>A required CharField with a length limit.\<close>

definition required_char_clean :: "nat \<Rightarrow> jval \<Rightarrow> string cleaned" where
  "required_char_clean max_length v =
     (case char_clean (Some max_length) None (\<lambda>t. []) v of
        (errs, None) \<Rightarrow> Errors [Required]
      | (errs, Some t) \<Rightarrow> if errs = [] then Clean t else Errors errs)"

text \<open>
  The two percentages: \<^verbatim>\<open>DecimalField(max_digits=5, decimal_places=2)\<close> with the validators
  \<^verbatim>\<open>MinValueValidator(0)\<close> and \<^verbatim>\<open>MaxValueValidator(100)\<close>. The form field checks the digits; the
  model's validators run on a value that passed the form field.
\<close>

definition decimal_clean :: "conversions \<Rightarrow> jval \<Rightarrow> decimal cleaned" where
  "decimal_clean conv v =
     (if in_empty_values v then Errors [Required]
      else case to_decimal conv (py_str v) of
             None \<Rightarrow> Errors [Invalid]
           | Some d \<Rightarrow>
               if decimal_validator 5 2 d \<noteq> [] then Errors (decimal_validator 5 2 d)
               else let errs = (if dec_less d 0 then [MinValue] else [])
                               @ (if dec_greater d 100 then [MaxValue] else [])
                    in if errs = [] then Clean d else Errors errs)"

text \<open>
  The three notice counters: \<^verbatim>\<open>IntegerField(default=0)\<close>, with no validator of its own; the
  only limits are those of the database backend.
\<close>

definition integer_clean :: "conversions \<Rightarrow> jval \<Rightarrow> int cleaned" where
  "integer_clean conv v =
     (if in_empty_values v then Errors [Required]
      else case to_int conv (py_str v) of
             None \<Rightarrow> Errors [Invalid]
           | Some n \<Rightarrow>
               let errs = (case fst (integer_field_range conv) of
                             Some lo \<Rightarrow> if n < lo then [MinValue] else []
                           | None \<Rightarrow> [])
                          @ (case snd (integer_field_range conv) of
                               Some hi \<Rightarrow> if n > hi then [MaxValue] else []
                             | None \<Rightarrow> [])
               in if errs = [] then Clean n else Errors errs)"

text \<open>\<^verbatim>\<open>form.errors\<close> of an AuditModelForm bound to \<open>data\<close>, in the order of \<^verbatim>\<open>Meta.fields\<close>.\<close>

definition audit_field_errors ::
  "conversions \<Rightarrow> store \<Rightarrow> (string \<Rightarrow> jval) \<Rightarrow> (string \<times> field_error list) list" where
  "audit_field_errors conv s data =
     [(''project'', errors_of (project_clean conv s (data ''project''))),
      (''audit_date'', errors_of (date_clean conv (data ''audit_date''))),
      (''audit_type'', errors_of (choice_clean AUDIT_TYPES (data ''audit_type''))),
      (''audit_number'', errors_of (required_char_clean 50 (data ''audit_number''))),
      (''performed_by'', errors_of (required_char_clean 200 (data ''performed_by''))),
      (''report_number'', errors_of (required_char_clean 100 (data ''report_number''))),
      (''overall_score_percentage'',
         errors_of (decimal_clean conv (data ''overall_score_percentage''))),
      (''standard_required'', errors_of (decimal_clean conv (data ''standard_required''))),
      (''improvement_notices'', errors_of (integer_clean conv (data ''improvement_notices''))),
      (''contravention_notices'',
         errors_of (integer_clean conv (data ''contravention_notices''))),
      (''prohibition_notices'', errors_of (integer_clean conv (data ''prohibition_notices'')))]"

definition audit_form_errors ::
  "conversions \<Rightarrow> store \<Rightarrow> (string \<Rightarrow> jval) \<Rightarrow> (string \<times> err_value) list" where
  "audit_form_errors conv s data =
     map (\<lambda>(k, errs). (k, Codes errs))
       (filter (\<lambda>(k, errs). errs \<noteq> []) (audit_field_errors conv s data))"

text \<open>The instance a valid form saves (its primary key is set by the insert).\<close>

definition audit_form_instance ::
  "conversions \<Rightarrow> store \<Rightarrow> (string \<Rightarrow> jval) \<Rightarrow> audit option" where
  "audit_form_instance conv s data =
     (case (project_clean conv s (data ''project''), date_clean conv (data ''audit_date''),
            choice_clean AUDIT_TYPES (data ''audit_type''),
            required_char_clean 50 (data ''audit_number''),
            required_char_clean 200 (data ''performed_by''),
            required_char_clean 100 (data ''report_number''),
            decimal_clean conv (data ''overall_score_percentage''),
            decimal_clean conv (data ''standard_required''),
            integer_clean conv (data ''improvement_notices''),
            integer_clean conv (data ''contravention_notices''),
            integer_clean conv (data ''prohibition_notices'')) of
        (Clean p, Clean d, Clean ty, Clean num, Clean by, Clean rep, Clean score, Clean std,
         Clean imp, Clean con, Clean pro) \<Rightarrow>
          Some \<lparr>audit_id = 0, audit_project = p, audit_date = d, audit_type = ty,
                audit_number = num, performed_by = by, report_number = rep,
                overall_score_percentage = score, standard_required = std,
                improvement_notices = imp, contravention_notices = con,
                prohibition_notices = pro\<rparr>
      | _ \<Rightarrow> None)"

definition insert_audit :: "audit \<Rightarrow> store \<Rightarrow> audit \<times> store" where
  "insert_audit a s =
     (let saved = a\<lparr>audit_id := next_id (map audit_id (audits s))\<rparr>
      in (saved, s\<lparr>audits := audits s @ [saved]\<rparr>))"

text \<open>
  The view. A body that decodes to None gives an unbound form, which is not valid and has
  no errors; a body that is neither None nor a dict has no \<^verbatim>\<open>get\<close>, and the form raises.
\<close>

definition audit_create_post :: "conversions \<Rightarrow> store \<Rightarrow> request \<Rightarrow> response \<times> store" where
  "audit_create_post conv s req =
     (if content_type req \<noteq> ''application/json'' then
        (JsonFailure 400 [(''__all__'', Message ''Expected JSON payload.'')], s)
      else
        (case body req of
           Malformed \<Rightarrow> (JsonFailure 400 [(''__all__'', Message ''Invalid JSON payload.'')], s)
         | Null \<Rightarrow> (JsonFailure 400 [], s)
         | NonDict \<Rightarrow> (ServerError, s)
         | Dict payload \<Rightarrow>
             if date_clean conv (dict_get payload ''audit_date'') = Raises then (ServerError, s)
             else
               (case audit_form_instance conv s (dict_get payload) of
                  Some a \<Rightarrow>
                    let (saved, s') = insert_audit a s
                    in (JsonSuccess [(''id'', JInt (audit_id saved))], s')
                | None \<Rightarrow> (JsonFailure 400 (audit_form_errors conv s (dict_get payload)), s))))"

text \<open>
  Stand-ins for the conversions in examples: integers in plain digits with an optional minus
  sign, dates as YYYY-MM-DD, decimals as digits with an optional fraction, and the range of
  a 32-bit integer column.
\<close>

definition signed_int :: "string \<Rightarrow> int option" where
  "signed_int t =
     (case t of
        [] \<Rightarrow> None
      | c # cs \<Rightarrow> if c = CHR ''-'' then map_option uminus (digits_int cs) else digits_int t)"

fun plain_pk :: "jval \<Rightarrow> int option" where
  "plain_pk (JInt n) = Some n"
| "plain_pk (JStr t) = signed_int t"
| "plain_pk v = None"

definition iso_date :: "string \<Rightarrow> date option" where
  "iso_date t =
     (if length t = 10 \<and> t ! 4 = CHR ''-'' \<and> t ! 7 = CHR ''-'' then
        (case (digits_int (take 4 t), digits_int (take 2 (drop 5 t)), digits_int (drop 8 t)) of
           (Some y, Some m, Some d) \<Rightarrow>
             if 1 \<le> m \<and> m \<le> 12 \<and> 1 \<le> d \<and> d \<le> 31 then Some (y, m, d) else None
         | _ \<Rightarrow> None)
      else None)"

definition plain_decimal :: "string \<Rightarrow> decimal option" where
  "plain_decimal t =
     (let negative = (t \<noteq> [] \<and> hd t = CHR ''-'');
          digits = (if negative then tl t else t);
          whole = takeWhile (\<lambda>c. c \<noteq> CHR ''.'') digits;
          fraction = drop (Suc (length whole)) digits
      in case digits_int (whole @ fraction) of
           None \<Rightarrow> None
         | Some n \<Rightarrow>
             if whole = [] then None
             else Some \<lparr>coefficient = (if negative then - n else n),
                        exponent = - int (length fraction)\<rparr>)"

definition example_conversions :: conversions where
  "example_conversions =
     \<lparr>to_pk = plain_pk, to_date = iso_date, to_decimal = plain_decimal, to_int = signed_int,
      integer_field_range = (Some (- 2147483648), Some 2147483647)\<rparr>"

definition test_project :: project where
  "test_project = \<lparr>project_id = 1, title = ''Test Project'', permit_number = ''P-1'',
     location = ''Site'', project_client = 1\<rparr>"

definition site_store :: store where
  "site_store = \<lparr>clients = [acme], projects = [test_project], audits = [sample_audit],
     checklist = (\<lambda>c. [])\<rparr>"

definition audit_payload :: "string \<rightharpoonup> jval" where
  "audit_payload =
     [''project'' \<mapsto> JStr ''1'', ''audit_date'' \<mapsto> JStr ''2026-01-02'',
      ''audit_type'' \<mapsto> JStr ''OHS'', ''audit_number'' \<mapsto> JStr ''002'',
      ''performed_by'' \<mapsto> JStr ''Creator'', ''report_number'' \<mapsto> JStr ''R-002'',
      ''overall_score_percentage'' \<mapsto> JStr ''90.00'', ''standard_required'' \<mapsto> JStr ''75.00'',
      ''improvement_notices'' \<mapsto> JInt 0, ''contravention_notices'' \<mapsto> JInt 0,
      ''prohibition_notices'' \<mapsto> JInt 0]"

text \<open>\<^verbatim>\<open>AuditModelForm.Meta.fields\<close>.\<close>

definition audit_form_fields :: "string list" where
  "audit_form_fields =
     [''project'', ''audit_date'', ''audit_type'', ''audit_number'', ''performed_by'',
      ''report_number'', ''overall_score_percentage'', ''standard_required'',
      ''improvement_notices'', ''contravention_notices'', ''prohibition_notices'']"


text \<open>
  A cleaning outcome that raised no exception and, where it is a list of errors, has one.
\<close>

definition settled :: "'a cleaned \<Rightarrow> bool" where
  "settled c = (case c of Raises \<Rightarrow> False | Errors errs \<Rightarrow> errs \<noteq> [] | Clean x \<Rightarrow> True)"

text \<open>The payload of the example with one notice counter set to -1.\<close>

definition negative_notice_payload :: "string \<rightharpoonup> jval" where
  "negative_notice_payload = audit_payload(''improvement_notices'' \<mapsto> JInt (- 1))"

section \<open>Properties\<close>

lemma category_listed: "c \<in> set all_categories"
  by (cases c) (simp_all add: all_categories_def)

lemma unique_per_audit_iff:
  "unique_per_audit s \<longleftrightarrow> (\<forall>c. distinct (map unique_key (checklist s c)))"
  by (auto simp add: unique_per_audit_def list_all_iff category_listed)

lemma unique_key_row_id [simp]: "unique_key (r\<lparr>row_id := i\<rparr>) = unique_key r"
  by (simp add: unique_key_def)

lemma insert_row_preserves:
  assumes "unique_per_audit s" and "insert_row c r s = Inr s'"
  shows "unique_per_audit s'"
proof -
  from assms(2) have fresh: "unique_key r \<notin> set (map unique_key (checklist s c))"
    and s': "s' = s\<lparr>checklist := (checklist s)
                  (c := checklist s c @ [r\<lparr>row_id := next_id (map row_id (checklist s c))\<rparr>])\<rparr>"
    by (auto simp add: insert_row_def split: if_splits)
  from assms(1) have d: "distinct (map unique_key (checklist s k))" for k
    by (simp add: unique_per_audit_iff)
  have "distinct (map unique_key (checklist s' k))" for k
    using d [of k] fresh by (cases "k = c") (auto simp add: s')
  then show ?thesis by (simp add: unique_per_audit_iff)
qed

text \<open>
  C1. In every checklist category, for an audit of the store that has no row with the code
  yet, the first insert of a row with that audit and code succeeds, a second insert with the
  same audit and code fails with the uniqueness error, and every insert that succeeds keeps
  the invariant "at most one row per (audit, item type) pair in each category".
\<close>

theorem checklist_insert_unique:
  assumes "unique_per_audit s"
    and "a \<in> set (map audit_id (audits s))"
    and "(a, code) \<notin> set (map unique_key (checklist s c))"
    and "row_audit r1 = a" and "item_type r1 = code"
    and "row_audit r2 = a" and "item_type r2 = code"
  shows "(\<exists>s1. insert_row c r1 s = Inr s1 \<and> insert_row c r2 s1 = Inl UniqueViolation
           \<and> unique_per_audit s1)
       \<and> (\<forall>k r t. insert_row k r s = Inr t \<longrightarrow> unique_per_audit t)"
proof -
  define s1 where "s1 = s\<lparr>checklist := (checklist s)
      (c := checklist s c @ [r1\<lparr>row_id := next_id (map row_id (checklist s c))\<rparr>])\<rparr>"
  have k1: "unique_key r1 = (a, code)" and k2: "unique_key r2 = (a, code)"
    using assms by (simp_all add: unique_key_def)
  have first: "insert_row c r1 s = Inr s1"
    using assms(2,3,4) k1 by (simp add: insert_row_def s1_def)
  have second: "insert_row c r2 s1 = Inl UniqueViolation"
    using assms(2,6) k1 k2 by (simp add: insert_row_def s1_def)
  from insert_row_preserves [OF assms(1) first] first second
  have "\<exists>s1. insert_row c r1 s = Inr s1 \<and> insert_row c r2 s1 = Inl UniqueViolation
           \<and> unique_per_audit s1"
    by blast
  moreover have "\<forall>k r t. insert_row k r s = Inr t \<longrightarrow> unique_per_audit t"
    using insert_row_preserves [OF assms(1)] by blast
  ultimately show ?thesis by blast
qed

theorem checklist_insert_unique_witness:
  "unique_per_audit one_audit_store \<and> 1 \<in> set (map audit_id (audits one_audit_store))
   \<and> (1, ''HCA'') \<notin> set (map unique_key (checklist one_audit_store LegalAppointment))
   \<and> (\<exists>s1. insert_row LegalAppointment (sample_row 2) one_audit_store = Inr s1
         \<and> insert_row LegalAppointment (sample_row 1) s1 = Inl UniqueViolation
         \<and> unique_per_audit s1)"
proof -
  have inv: "unique_per_audit one_audit_store"
    by (simp add: unique_per_audit_def all_categories_def one_audit_store_def)
  have a: "1 \<in> set (map audit_id (audits one_audit_store))"
    by (simp add: one_audit_store_def sample_audit_def)
  have f: "(1, ''HCA'') \<notin> set (map unique_key (checklist one_audit_store LegalAppointment))"
    by (simp add: one_audit_store_def)
  from checklist_insert_unique [OF inv a f, of "sample_row 2" "sample_row 1"] inv a f
  show ?thesis by (simp add: sample_row_def)
qed

lemma insort_desc_length [simp]: "length (insort_desc a xs) = Suc (length xs)"
  by (induction xs) auto

lemma order_length [simp]: "length (order_by_audit_date_desc xs) = length xs"
  by (induction xs) (auto simp add: order_by_audit_date_desc_def)

lemma insort_desc_set [simp]: "set (insort_desc a xs) = insert a (set xs)"
  by (induction xs) auto

lemma insort_desc_mset [simp]: "mset (insort_desc a xs) = add_mset a (mset xs)"
  by (induction xs) auto

lemma order_mset [simp]: "mset (order_by_audit_date_desc xs) = mset xs"
  by (induction xs) (auto simp add: order_by_audit_date_desc_def)











text \<open>
  C6. Sharing an existing audit with a JSON payload whose recipient can be read: when the
  recipient is empty or the address check rejects it, the response is a 400 whose errors have
  the one key to_email with a list of one message, and nothing is sent; when the address is
  accepted and the mail transport returns, the response is the success object and exactly one
  message is added to the outbox, to that recipient, with the report number in its subject
  and the absolute URL of the audit's detail view in its body.
\<close>

theorem share_validates_and_sends:
  assumes "get_object_or_404 s pk = Some a"
    and "content_type req = ''application/json''"
    and "body req = Dict payload"
    and "recipient payload = Some t"
    and "message = (case payload ''message'' of None \<Rightarrow> '''' | Some v \<Rightarrow> py_str v)"
    and "m = share_mail cfg rv req a t message"
  shows "(t = [] \<or> \<not> validate_email t \<longrightarrow>
            (\<exists>e. share_post validate_email send_mail cfg rv s req pk outbox
                   = (JsonFailure 400 [(''to_email'', Messages [e])], outbox)))
       \<and> (t \<noteq> [] \<and> validate_email t \<and> send_mail m = None \<longrightarrow>
            share_post validate_email send_mail cfg rv s req pk outbox
              = (JsonSuccess [], outbox @ [m])
            \<and> recipient_list m = [t]
            \<and> mail_subject m = ''Audit Report: '' @ report_number a
            \<and> mail_body m
                = message @ [CHR 0x0A, CHR 0x0A] @ ''View the report: '' @ origin req
                  @ (case rv ''audit:report-detail'' [audit_id a] of
                       Some path \<Rightarrow> path
                     | None \<Rightarrow> ''/reports/'' @ str_int (audit_id a) @ ''/''))"
proof -
  from assms(4) obtain raw where raw: "py_or (dict_get payload ''to_email'') (JStr '''') = JStr raw"
    and t: "t = strip raw"
    by (auto simp add: recipient_def split: jval.splits)
  have bad: "t = [] \<or> \<not> validate_email t \<longrightarrow>
            (\<exists>e. share_post validate_email send_mail cfg rv s req pk outbox
                   = (JsonFailure 400 [(''to_email'', Messages [e])], outbox))"
    using assms(1,2,3) raw t by (auto simp add: share_post_def Let_def)
  have good: "t \<noteq> [] \<and> validate_email t \<and> send_mail m = None \<longrightarrow>
            share_post validate_email send_mail cfg rv s req pk outbox
              = (JsonSuccess [], outbox @ [m])"
    using assms(1,2,3,5,6) raw t by (auto simp add: share_post_def Let_def)
  have mail: "recipient_list m = [t]" "mail_subject m = ''Audit Report: '' @ report_number a"
    "mail_body m
                = message @ [CHR 0x0A, CHR 0x0A] @ ''View the report: '' @ origin req
                  @ (case rv ''audit:report-detail'' [audit_id a] of
                       Some path \<Rightarrow> path
                     | None \<Rightarrow> ''/reports/'' @ str_int (audit_id a) @ ''/'')"
    using assms(6)
    by (simp_all add: share_mail_def report_url_def build_absolute_uri_def split: option.splits)
  from bad good mail show ?thesis by blast
qed

theorem share_validates_and_sends_witness:
  "share_post simple_email_check delivering no_settings app_urls one_audit_store
       (share_request ''not-an-email'') 1 []
     = (JsonFailure 400 [(''to_email'', Messages [''Enter a valid email address.''])], [])
   \<and> share_post simple_email_check delivering no_settings app_urls one_audit_store
       (share_request ''receiver@example.com'') 1 []
     = (JsonSuccess [],
        [\<lparr>mail_subject = ''Audit Report: R-001'',
          mail_body = ''Please see report'' @ [CHR 0x0A, CHR 0x0A]
             @ ''View the report: https://audit.example/reports/1/'',
          from_email = ''no-reply@localhost'',
          recipient_list = [''receiver@example.com'']\<rparr>])"
proof -
  let ?bad = "[''to_email'' \<mapsto> JStr ''not-an-email'', ''message'' \<mapsto> JStr ''Please see report'']"
  let ?good = "[''to_email'' \<mapsto> JStr ''receiver@example.com'',
                ''message'' \<mapsto> JStr ''Please see report'']"
  have a: "get_object_or_404 one_audit_store 1 = Some sample_audit"
    by (simp add: get_object_or_404_def one_audit_store_def sample_audit_def)
  have c: "content_type (share_request x) = ''application/json''" for x
    by (simp add: share_request_def json_request_def)
  have b: "body (share_request ''not-an-email'') = Dict ?bad"
    "body (share_request ''receiver@example.com'') = Dict ?good"
    by (simp_all add: share_request_def json_request_def)
  have r: "recipient ?bad = Some ''not-an-email''"
    "recipient ?good = Some ''receiver@example.com''"
    by (simp_all add: recipient_def dict_get_def py_or_def strip_def is_space_def)
  have v: "\<not> simple_email_check ''not-an-email''" "simple_email_check ''receiver@example.com''"
    "''receiver@example.com'' \<noteq> []"
    by (simp_all add: simple_email_check_def is_space_def)
  note bad = share_validates_and_sends [OF a c b(1) r(1) refl refl,
      where validate_email = simple_email_check and send_mail = delivering
        and cfg = no_settings and rv = app_urls and outbox = "[]",
      THEN conjunct1, THEN mp, OF disjI2, OF v(1)]
  note good = share_validates_and_sends [OF a c b(2) r(2) refl refl,
      where validate_email = simple_email_check and send_mail = delivering
        and cfg = no_settings and rv = app_urls and outbox = "[]",
      THEN conjunct2, THEN mp, THEN conjunct1]
  have 1: "share_post simple_email_check delivering no_settings app_urls one_audit_store
       (share_request ''not-an-email'') 1 []
     = (JsonFailure 400 [(''to_email'', Messages [''Enter a valid email address.''])], [])"
    using bad a c b(1) r(1) v(1)
    by (auto simp add: share_post_def recipient_def Let_def split: jval.splits)
  have 2: "share_post simple_email_check delivering no_settings app_urls one_audit_store
       (share_request ''receiver@example.com'') 1 []
     = (JsonSuccess [],
        [\<lparr>mail_subject = ''Audit Report: R-001'',
          mail_body = ''Please see report'' @ [CHR 0x0A, CHR 0x0A]
             @ ''View the report: https://audit.example/reports/1/'',
          from_email = ''no-reply@localhost'',
          recipient_list = [''receiver@example.com'']\<rparr>])"
    using good v(2,3)
    by (simp add: delivering_def share_mail_def report_url_def build_absolute_uri_def
        app_urls_def str_int_def str_nat.simps sender_def no_settings_def sample_audit_def
        share_request_def json_request_def)
  from 1 2 show ?thesis by (intro conjI)
qed

text \<open>
  C7, as the code has it. When the mail transport raises for the composed message, the
  response has status 500 and its errors have the one key \<^verbatim>\<open>__all__\<close>, whose value is the single
  message "Failed to send email: " followed by the text of the exception; nothing is
  added to the outbox.
\<close>

theorem share_delivery_failure:
  assumes "get_object_or_404 s pk = Some a"
    and "content_type req = ''application/json''"
    and "body req = Dict payload"
    and "recipient payload = Some t"
    and "t \<noteq> []" and "validate_email t"
    and "message = (case payload ''message'' of None \<Rightarrow> '''' | Some v \<Rightarrow> py_str v)"
    and "send_mail (share_mail cfg rv req a t message) = Some e"
  shows "share_post validate_email send_mail cfg rv s req pk outbox
           = (JsonFailure 500 [(''__all__'', Message (''Failed to send email: '' @ e))], outbox)"
proof -
  from assms(4) obtain raw where "py_or (dict_get payload ''to_email'') (JStr '''') = JStr raw"
    and "t = strip raw"
    by (auto simp add: recipient_def split: jval.splits)
  with assms(1,2,3,5,6,7,8) show ?thesis
    by (auto simp add: share_post_def Let_def)
qed

theorem share_delivery_failure_witness:
  "share_post simple_email_check refusing no_settings app_urls one_audit_store
       (share_request ''receiver@example.com'') 1 []
     = (JsonFailure 500 [(''__all__'', Message ''Failed to send email: Connection refused'')], [])"
proof -
  let ?good = "[''to_email'' \<mapsto> JStr ''receiver@example.com'',
                ''message'' \<mapsto> JStr ''Please see report'']"
  have a: "get_object_or_404 one_audit_store 1 = Some sample_audit"
    by (simp add: get_object_or_404_def one_audit_store_def sample_audit_def)
  have c: "content_type (share_request ''receiver@example.com'') = ''application/json''"
    by (simp add: share_request_def json_request_def)
  have b: "body (share_request ''receiver@example.com'') = Dict ?good"
    by (simp add: share_request_def json_request_def)
  have r: "recipient ?good = Some ''receiver@example.com''"
    by (simp add: recipient_def dict_get_def py_or_def strip_def is_space_def)
  have v: "''receiver@example.com'' \<noteq> []" "simple_email_check ''receiver@example.com''"
    by (simp_all add: simple_email_check_def is_space_def)
  have f: "refusing m = Some ''Connection refused''" for m
    by (simp add: refusing_def)
  from share_delivery_failure [where send_mail = refusing and cfg = no_settings
      and rv = app_urls and outbox = "[]" and validate_email = simple_email_check,
      OF a c b r v refl f]
  show ?thesis by simp
qed

theorem share_delivery_failure_key_counterexample:
  "fst (share_post simple_email_check refusing no_settings app_urls one_audit_store
         (share_request ''receiver@example.com'') 1 [])
     \<noteq> JsonFailure 500 [(''*'', Messages [''Failed to send email: Connection refused''])]"
  by (simp add: share_post_def get_object_or_404_def one_audit_store_def sample_audit_def
      share_request_def json_request_def dict_get_def py_or_def strip_def is_space_def
      simple_email_check_def refusing_def Let_def)

lemma allowed_cong:
  "\<forall>k \<in> set client_form_fields. p k = p' k \<Longrightarrow> allowed p = allowed p'"
  by (auto simp add: allowed_def dict_get_def fun_eq_iff)

lemma client_form_clean_cong:
  "\<forall>k \<in> set client_form_fields. d k = d' k \<Longrightarrow>
   client_form_clean v d = client_form_clean v d'"
  by (simp add: client_form_clean_def client_form_fields_def)

lemma find_save_client:
  assumes "find (\<lambda>c. client_id c = pk) cs = Some c" and "client_id c' = pk"
  shows "find (\<lambda>c. client_id c = pk) (map (\<lambda>old. if client_id old = pk then c' else old) cs) = Some c'"
  using assms by (induction cs) (auto split: if_splits)

lemma find_client_id: "find (\<lambda>c. client_id c = pk) cs = Some c \<Longrightarrow> client_id c = pk"
  by (induction cs) (auto split: if_splits)

lemma client_form_save_keeps [simp]:
  "client_id (client_form_save cl c) = client_id c" "name (client_form_save cl c) = name c"
  by (simp_all add: client_form_save_def)

text \<open>
  C8. A client update reads only the four fields of the allow-list: two JSON payloads, or
  two form posts, that agree on contact_name, contact_email, contact_phone and address get
  the same response and leave the same store, whatever other keys they carry; and after any
  update request the client still has its name.
\<close>

theorem client_update_ignores_other_fields:
  assumes "get_client_or_404 s pk = Some c"
    and "\<forall>k \<in> set client_form_fields. p k = p' k \<and> q k = q' k"
  shows "client_update_post v s (req\<lparr>body := Dict p, POST := q\<rparr>) pk
           = client_update_post v s (req\<lparr>body := Dict p', POST := q'\<rparr>) pk
       \<and> (\<exists>c'. get_client_or_404 (snd (client_update_post v s req pk)) pk = Some c'
              \<and> name c' = name c)"
proof -
  have a: "allowed p = allowed p'"
    using assms(2) by (intro allowed_cong) simp
  have "\<forall>k \<in> set client_form_fields.
          post_data (req\<lparr>body := Dict p, POST := q\<rparr>) k
          = post_data (req\<lparr>body := Dict p', POST := q'\<rparr>) k"
    using assms(2) by (simp add: post_data_def)
  then have b: "client_form_clean v (post_data (req\<lparr>body := Dict p, POST := q\<rparr>))
      = client_form_clean v (post_data (req\<lparr>body := Dict p', POST := q'\<rparr>))"
    by (rule client_form_clean_cong)
  have 1: "client_update_post v s (req\<lparr>body := Dict p, POST := q\<rparr>) pk
           = client_update_post v s (req\<lparr>body := Dict p', POST := q'\<rparr>) pk"
  proof (cases "content_type req = ''application/json''")
    case True
    then show ?thesis
      using a assms(1) by (simp add: client_update_post_def)
  next
    case False
    then show ?thesis
      using b assms(1) by (simp add: client_update_post_def Let_def)
  qed
  have id: "client_id c = pk"
    using assms(1) by (auto simp add: get_client_or_404_def dest: find_client_id)
  have saved: "get_client_or_404 (save_client (client_form_save cl c) s) pk
                 = Some (client_form_save cl c)" for cl
    using assms(1) id find_save_client [of pk "clients s" c "client_form_save cl c"]
    by (simp add: get_client_or_404_def save_client_def)
  have 2: "\<exists>c'. get_client_or_404 (snd (client_update_post v s req pk)) pk = Some c'
              \<and> name c' = name c"
    using assms(1) saved
    by (auto simp add: client_update_post_def Let_def split: body.splits sum.splits)
  from 1 2 show ?thesis by (rule conjI)
qed

theorem client_update_ignores_other_fields_witness:
  "get_client_or_404 acme_store 1 = Some acme
   \<and> client_update_post simple_email_check acme_store
        (json_request (update_payload(''name'' \<mapsto> JStr ''Renamed''))) 1
      = client_update_post simple_email_check acme_store (json_request update_payload) 1
   \<and> (\<exists>c'. get_client_or_404 (snd (client_update_post simple_email_check acme_store
                (json_request (update_payload(''name'' \<mapsto> JStr ''Renamed''))) 1)) 1 = Some c'
          \<and> name c' = ''ACME'')"
proof -
  have a: "get_client_or_404 acme_store 1 = Some acme"
    by (simp add: get_client_or_404_def acme_store_def acme_def)
  have b: "\<forall>k \<in> set client_form_fields.
             (update_payload(''name'' \<mapsto> JStr ''Renamed'')) k = update_payload k
             \<and> (Map.empty :: string \<rightharpoonup> string) k = Map.empty k"
    by (simp add: client_form_fields_def)
  have r: "(json_request x)\<lparr>body := Dict y, POST := Map.empty\<rparr> = json_request y" for x y
    by (simp add: json_request_def)
  have n: "name acme = ''ACME''" by (simp add: acme_def)
  note t = client_update_ignores_other_fields [OF a b, of simple_email_check
      "json_request (update_payload(''name'' \<mapsto> JStr ''Renamed''))", unfolded r n]
  show ?thesis
    by (intro conjI) (rule a, rule t [THEN conjunct1], rule t [THEN conjunct2])
qed

lemma cleaned_value_client_form:
  "cleaned_value (client_form_clean v d) ''contact_name''
     = snd (char_clean (Some 200) None (\<lambda>t. []) (d ''contact_name''))"
  "cleaned_value (client_form_clean v d) ''contact_email''
     = snd (char_clean (Some 254) None (\<lambda>t. if v t then [] else [Invalid]) (d ''contact_email''))"
  "cleaned_value (client_form_clean v d) ''contact_phone''
     = snd (char_clean (Some 50) None (\<lambda>t. []) (d ''contact_phone''))"
  "cleaned_value (client_form_clean v d) ''address''
     = snd (char_clean None (Some '''') (\<lambda>t. []) (d ''address''))"
  by (simp_all add: cleaned_value_def client_form_clean_def split: prod.splits)

lemma char_clean_null [simp]: "char_clean m e vs JNull = ([], e)"
  by (simp add: char_clean_def)

text \<open>
  C10. For a JSON client update that is accepted, every field of the allow-list whose key
  is absent from the payload is stored empty, whatever it held before: None for
  contact_name, contact_email and contact_phone, the empty string for the address.
\<close>

theorem client_update_clears_absent_fields:
  assumes "get_client_or_404 s pk = Some c"
    and "content_type req = ''application/json''"
    and "body req = Dict payload"
    and "fst (client_update_post v s req pk) = JsonSuccess []"
  shows "\<exists>c'. get_client_or_404 (snd (client_update_post v s req pk)) pk = Some c'
           \<and> (payload ''contact_name'' = None \<longrightarrow> contact_name c' = None)
           \<and> (payload ''contact_email'' = None \<longrightarrow> contact_email c' = None)
           \<and> (payload ''contact_phone'' = None \<longrightarrow> contact_phone c' = None)
           \<and> (payload ''address'' = None \<longrightarrow> address c' = Some '''')"
proof -
  let ?cl = "client_form_clean v (allowed payload)"
  have id: "client_id c = pk"
    using assms(1) by (auto simp add: get_client_or_404_def dest: find_client_id)
  from assms have ok: "form_errors ?cl = []"
    by (auto simp add: client_update_post_def Let_def split: if_splits)
  with assms have s': "snd (client_update_post v s req pk) = save_client (client_form_save ?cl c) s"
    by (simp add: client_update_post_def Let_def)
  have saved: "get_client_or_404 (save_client (client_form_save ?cl c) s) pk
                 = Some (client_form_save ?cl c)"
    using assms(1) id find_save_client [of pk "clients s" c "client_form_save ?cl c"]
    by (simp add: get_client_or_404_def save_client_def)
  have absent: "payload k = None \<Longrightarrow> allowed payload k = JNull" for k
    by (simp add: allowed_def dict_get_def)
  have "(payload ''contact_name'' = None \<longrightarrow> contact_name (client_form_save ?cl c) = None)
      \<and> (payload ''contact_email'' = None \<longrightarrow> contact_email (client_form_save ?cl c) = None)
      \<and> (payload ''contact_phone'' = None \<longrightarrow> contact_phone (client_form_save ?cl c) = None)
      \<and> (payload ''address'' = None \<longrightarrow> address (client_form_save ?cl c) = Some '''')"
    by (simp add: client_form_save_def cleaned_value_client_form absent)
  with s' saved show ?thesis by simp
qed

theorem client_update_clears_absent_fields_witness:
  "client_update_post simple_email_check acme_store
        (json_request [''contact_name'' \<mapsto> JStr ''New Contact'']) 1
     = (JsonSuccess [],
        acme_store\<lparr>clients := [acme\<lparr>contact_name := Some ''New Contact'', contact_email := None,
                                    contact_phone := None, address := Some ''''\<rparr>]\<rparr>)"
proof -
  let ?req = "json_request [''contact_name'' \<mapsto> JStr ''New Contact'']"
  have a: "get_client_or_404 acme_store 1 = Some acme"
    by (simp add: get_client_or_404_def acme_store_def acme_def)
  have c: "content_type ?req = ''application/json''"
    and b: "body ?req = Dict [''contact_name'' \<mapsto> JStr ''New Contact'']"
    by (simp_all add: json_request_def)
  have r: "client_update_post simple_email_check acme_store ?req 1
     = (JsonSuccess [],
        acme_store\<lparr>clients := [acme\<lparr>contact_name := Some ''New Contact'', contact_email := None,
                                    contact_phone := None, address := Some ''''\<rparr>]\<rparr>)"
    by (simp add: client_update_post_def get_client_or_404_def acme_store_def acme_def
        json_request_def allowed_def client_form_fields_def dict_get_def client_form_clean_def
        char_clean_def form_errors_def client_form_save_def cleaned_value_def save_client_def
        strip_def is_space_def Let_def)
  then have f: "fst (client_update_post simple_email_check acme_store ?req 1) = JsonSuccess []"
    by simp
  from client_update_clears_absent_fields [OF a c b f] r show ?thesis by simp
qed

lemmas example_defs = example_conversions_def plain_decimal_def iso_date_def signed_int_def
  digits_int_def digit_of_def str_int_def str_nat.simps strip_def is_space_def

lemmas audit_form_defs = project_clean_def date_clean_def choice_clean_def
  required_char_clean_def char_clean_def decimal_clean_def integer_clean_def
  decimal_validator_def dec_less_def dec_greater_def AUDIT_TYPES_def

lemma settled_errors: "settled c \<Longrightarrow> (\<forall>x. c \<noteq> Clean x) \<Longrightarrow> errors_of c \<noteq> []"
  by (cases c) (simp_all add: settled_def)

lemma project_clean_settled: "settled (project_clean conv s v)"
  by (simp add: project_clean_def settled_def split: option.splits)

lemma date_clean_settled: "date_clean conv v \<noteq> Raises \<Longrightarrow> settled (date_clean conv v)"
  by (auto simp add: date_clean_def settled_def split: option.splits jval.splits if_splits)

lemma choice_clean_settled: "settled (choice_clean cs v)"
  by (simp add: choice_clean_def settled_def)

lemma required_char_clean_settled: "settled (required_char_clean n v)"
  by (simp add: required_char_clean_def settled_def split: prod.splits option.splits)

lemma decimal_clean_settled: "settled (decimal_clean conv v)"
  by (simp add: decimal_clean_def settled_def Let_def split: option.splits)

lemma integer_clean_settled: "settled (integer_clean conv v)"
  by (simp add: integer_clean_def settled_def Let_def split: option.splits)

lemma instance_Some_iff:
  "audit_form_instance conv s data = Some a \<longleftrightarrow>
     project_clean conv s (data ''project'') = Clean (audit_project a)
   \<and> date_clean conv (data ''audit_date'') = Clean (audit_date a)
   \<and> choice_clean AUDIT_TYPES (data ''audit_type'') = Clean (audit_type a)
   \<and> required_char_clean 50 (data ''audit_number'') = Clean (audit_number a)
   \<and> required_char_clean 200 (data ''performed_by'') = Clean (performed_by a)
   \<and> required_char_clean 100 (data ''report_number'') = Clean (report_number a)
   \<and> decimal_clean conv (data ''overall_score_percentage'') = Clean (overall_score_percentage a)
   \<and> decimal_clean conv (data ''standard_required'') = Clean (standard_required a)
   \<and> integer_clean conv (data ''improvement_notices'') = Clean (improvement_notices a)
   \<and> integer_clean conv (data ''contravention_notices'') = Clean (contravention_notices a)
   \<and> integer_clean conv (data ''prohibition_notices'') = Clean (prohibition_notices a)
   \<and> audit_id a = 0 \<and> audit.more a = ()"
  unfolding audit_form_instance_def
  by (cases a) (auto split: cleaned.splits)

lemma settled_clean: "settled c \<Longrightarrow> errors_of c = [] \<Longrightarrow> \<exists>x. c = Clean x"
  by (cases c) (simp_all add: settled_def)

lemma audit_form_errors_empty_iff:
  "audit_form_errors conv s data = [] \<longleftrightarrow>
     (\<forall>(k, errs) \<in> set (audit_field_errors conv s data). errs = [])"
  by (auto simp add: audit_form_errors_def filter_empty_conv)

lemma instance_None_errors:
  assumes "audit_form_instance conv s data = None"
    and "date_clean conv (data ''audit_date'') \<noteq> Raises"
  shows "audit_form_errors conv s data \<noteq> []"
proof
  assume "audit_form_errors conv s data = []"
  then have e: "errors_of (project_clean conv s (data ''project'')) = []"
    "errors_of (date_clean conv (data ''audit_date'')) = []"
    "errors_of (choice_clean AUDIT_TYPES (data ''audit_type'')) = []"
    "errors_of (required_char_clean 50 (data ''audit_number'')) = []"
    "errors_of (required_char_clean 200 (data ''performed_by'')) = []"
    "errors_of (required_char_clean 100 (data ''report_number'')) = []"
    "errors_of (decimal_clean conv (data ''overall_score_percentage'')) = []"
    "errors_of (decimal_clean conv (data ''standard_required'')) = []"
    "errors_of (integer_clean conv (data ''improvement_notices'')) = []"
    "errors_of (integer_clean conv (data ''contravention_notices'')) = []"
    "errors_of (integer_clean conv (data ''prohibition_notices'')) = []"
    by (simp_all add: audit_form_errors_empty_iff audit_field_errors_def)
  obtain p d ty num by' rep score std imp con pro where
    "project_clean conv s (data ''project'') = Clean p"
    "date_clean conv (data ''audit_date'') = Clean d"
    "choice_clean AUDIT_TYPES (data ''audit_type'') = Clean ty"
    "required_char_clean 50 (data ''audit_number'') = Clean num"
    "required_char_clean 200 (data ''performed_by'') = Clean by'"
    "required_char_clean 100 (data ''report_number'') = Clean rep"
    "decimal_clean conv (data ''overall_score_percentage'') = Clean score"
    "decimal_clean conv (data ''standard_required'') = Clean std"
    "integer_clean conv (data ''improvement_notices'') = Clean imp"
    "integer_clean conv (data ''contravention_notices'') = Clean con"
    "integer_clean conv (data ''prohibition_notices'') = Clean pro"
    using settled_clean [OF project_clean_settled e(1)]
      settled_clean [OF date_clean_settled [OF assms(2)] e(2)]
      settled_clean [OF choice_clean_settled e(3)]
      settled_clean [OF required_char_clean_settled e(4)]
      settled_clean [OF required_char_clean_settled e(5)]
      settled_clean [OF required_char_clean_settled e(6)]
      settled_clean [OF decimal_clean_settled e(7)]
      settled_clean [OF decimal_clean_settled e(8)]
      settled_clean [OF integer_clean_settled e(9)]
      settled_clean [OF integer_clean_settled e(10)]
      settled_clean [OF integer_clean_settled e(11)]
    by blast
  then have "audit_form_instance conv s data \<noteq> None"
    by (simp add: audit_form_instance_def)
  with assms(1) show False by simp
qed

lemma fold_max_ge: "m \<le> fold max ids (m :: int)"
proof (induction ids arbitrary: m)
  case Nil
  show ?case by simp
next
  case (Cons a ids)
  have "m \<le> max a m" by simp
  also have "\<dots> \<le> fold max ids (max a m)" by (rule Cons.IH)
  finally show ?case by simp
qed

lemma fold_max_member: "x \<in> set ids \<Longrightarrow> x \<le> fold max ids (m :: int)"
proof (induction ids arbitrary: m)
  case Nil
  then show ?case by simp
next
  case (Cons a ids)
  show ?case
  proof (cases "x = a")
    case True
    have "x \<le> max a m" using True by simp
    also have "\<dots> \<le> fold max ids (max a m)" by (rule fold_max_ge)
    finally show ?thesis by simp
  next
    case False
    with Cons.prems have "x \<in> set ids" by simp
    then show ?thesis using Cons.IH by simp
  qed
qed

lemma next_id_fresh: "next_id ids \<notin> set ids"
proof
  assume "next_id ids \<in> set ids"
  then have "next_id ids \<le> fold max ids 0" by (rule fold_max_member)
  then show False by (simp add: next_id_def)
qed

lemma audit_form_errors_keys:
  "set (map fst (audit_form_errors conv s data)) \<subseteq> set audit_form_fields"
proof -
  have "map fst (audit_field_errors conv s data) = audit_form_fields"
    by (simp add: audit_field_errors_def audit_form_fields_def)
  then have "fst ` set (audit_field_errors conv s data) = set audit_form_fields"
    by (metis set_map)
  then show ?thesis
    by (auto simp add: audit_form_errors_def image_iff) force
qed

lemma create_valid:
  assumes "content_type req = ''application/json''" and "body req = Dict payload"
    and "audit_form_instance conv s (dict_get payload) = Some a"
  shows "audit_create_post conv s req
           = (JsonSuccess [(''id'', JInt (next_id (map audit_id (audits s))))],
              s\<lparr>audits := audits s @ [a\<lparr>audit_id := next_id (map audit_id (audits s))\<rparr>]\<rparr>)"
proof -
  from assms(3) have "date_clean conv (dict_get payload ''audit_date'') \<noteq> Raises"
    by (simp add: instance_Some_iff)
  with assms show ?thesis
    by (simp add: audit_create_post_def insert_audit_def Let_def)
qed

lemma create_invalid:
  assumes "content_type req = ''application/json''" and "body req = Dict payload"
    and "audit_form_instance conv s (dict_get payload) = None"
    and "date_clean conv (dict_get payload ''audit_date'') \<noteq> Raises"
  shows "audit_create_post conv s req
           = (JsonFailure 400 (audit_form_errors conv s (dict_get payload)), s)"
  using assms by (simp add: audit_create_post_def)

lemma create_store:
  "(\<exists>a. audit_create_post conv s req
           = (JsonSuccess [(''id'', JInt (audit_id a))], s\<lparr>audits := audits s @ [a]\<rparr>)
        \<and> audit_id a \<notin> set (map audit_id (audits s)))
   \<or> (snd (audit_create_post conv s req) = s
       \<and> (\<forall>x. fst (audit_create_post conv s req) \<noteq> JsonSuccess x))"
proof (cases "content_type req = ''application/json'' \<and> (\<exists>payload a. body req = Dict payload
    \<and> audit_form_instance conv s (dict_get payload) = Some a)")
  case True
  then obtain payload a where h: "content_type req = ''application/json''"
    "body req = Dict payload" "audit_form_instance conv s (dict_get payload) = Some a"
    by blast
  let ?saved = "a\<lparr>audit_id := next_id (map audit_id (audits s))\<rparr>"
  have "audit_create_post conv s req
           = (JsonSuccess [(''id'', JInt (audit_id ?saved))], s\<lparr>audits := audits s @ [?saved]\<rparr>)"
    using create_valid [OF h] by simp
  moreover have "audit_id ?saved \<notin> set (map audit_id (audits s))"
    using next_id_fresh [of "map audit_id (audits s)"] by simp
  ultimately show ?thesis by blast
next
  case False
  then have "snd (audit_create_post conv s req) = s
       \<and> (\<forall>x. fst (audit_create_post conv s req) \<noteq> JsonSuccess x)"
    by (auto simp add: audit_create_post_def split: body.splits option.splits)
  then show ?thesis by blast
qed

lemma str_nat_small: "str_nat 0 = ''0''" "str_nat 1 = ''1''" "str_nat 10 = ''10''"
  "str_nat 100 = ''100''" "str_nat 1000 = ''1000''" "str_nat 10000 = ''10000''"
  "str_nat (Suc 0) = ''1''"
  by (simp_all add: str_nat.simps)

lemma hundred_cases:
  assumes "c * 10 ^ k = (100 :: int)"
  shows "(k = 0 \<and> c = 100) \<or> (k = 1 \<and> c = 10) \<or> (k = 2 \<and> c = 1)"
proof -
  consider "k = 0" | "k = 1" | "k = 2" | "3 \<le> k" by linarith
  then show ?thesis
  proof cases
    case 4
    then obtain j where "k = 3 + j" using le_Suc_ex by blast
    then have "c * 10 ^ k = 1000 * (c * 10 ^ j)" by (simp add: power_add)
    with assms have "(1000 :: int) dvd 100" by (metis dvd_triv_left)
    then show ?thesis by simp
  qed (use assms in auto)
qed

lemma boundary_digits:
  assumes "- 2 \<le> exponent d"
    and "coefficient d = 0 \<or> (\<not> dec_less d 100 \<and> \<not> dec_greater d 100)"
  shows "decimal_validator 5 2 d = []"
proof (cases "0 \<le> exponent d")
  case True
  from assms(2) show ?thesis
  proof
    assume "coefficient d = 0"
    with True show ?thesis by (simp add: decimal_validator_def str_nat_small)
  next
    assume "\<not> dec_less d 100 \<and> \<not> dec_greater d 100"
    with True have "coefficient d * 10 ^ nat (exponent d) = 100"
      by (simp add: dec_less_def dec_greater_def)
    from hundred_cases [OF this] True show ?thesis
      by (auto simp add: decimal_validator_def str_nat_small Let_def)
  qed
next
  case False
  with assms(1) consider "exponent d = - 1" | "exponent d = - 2" by linarith
  then show ?thesis
  proof cases
    case 1
    with assms(2) have "coefficient d = 0 \<or> coefficient d = 1000"
      by (auto simp add: dec_less_def dec_greater_def)
    with 1 show ?thesis by (auto simp add: decimal_validator_def str_nat_small)
  next
    case 2
    with assms(2) have "coefficient d = 0 \<or> coefficient d = 10000"
      by (auto simp add: dec_less_def dec_greater_def)
    with 2 show ?thesis by (auto simp add: decimal_validator_def str_nat_small)
  qed
qed

lemma decimal_clean_out_of_range:
  assumes "\<not> in_empty_values v" and "to_decimal conv (py_str v) = Some d"
    and "dec_less d 0 \<or> dec_greater d 100"
  shows "\<exists>errs. decimal_clean conv v = Errors errs \<and> errs \<noteq> []"
  using assms by (auto simp add: decimal_clean_def Let_def)

lemma zero_not_above: "coefficient d = 0 \<Longrightarrow> \<not> dec_less d 0 \<and> \<not> dec_greater d 100"
  by (simp add: dec_less_def dec_greater_def)

lemma hundred_not_below:
  assumes "\<not> dec_less d 100"
  shows "\<not> dec_less d 0"
proof (cases "0 \<le> exponent d")
  case True
  with assms show ?thesis by (simp add: dec_less_def)
next
  case False
  have p: "(0 :: int) \<le> 100 * 10 ^ nat (- exponent d)" by simp
  from False assms have "\<not> coefficient d < 100 * 10 ^ nat (- exponent d)"
    by (simp add: dec_less_def)
  with p have "\<not> coefficient d < 0" by linarith
  with False show ?thesis by (simp add: dec_less_def)
qed

lemma decimal_clean_boundary:
  assumes "\<not> in_empty_values v" and "to_decimal conv (py_str v) = Some d"
    and "- 2 \<le> exponent d"
    and "coefficient d = 0 \<or> (\<not> dec_less d 100 \<and> \<not> dec_greater d 100)"
  shows "decimal_clean conv v = Clean d"
proof -
  have "\<not> dec_less d 0 \<and> \<not> dec_greater d 100"
    using assms(4) zero_not_above hundred_not_below by blast
  with assms(1,2) boundary_digits [OF assms(3,4)] show ?thesis
    by (simp add: decimal_clean_def)
qed

text \<open>
  C2. For each of the fields overall_score_percentage and standard_required of a
  create-audit payload: a value below 0 or above 100 is rejected with errors under that
  field, the request is answered with the 400 error mapping and nothing is stored (the value
  is not clamped); the values 0 and 100, written with at most two decimal places, are
  accepted.
\<close>

theorem score_percentage_bounds:
  assumes "f = ''overall_score_percentage'' \<or> f = ''standard_required''"
    and "content_type req = ''application/json''" and "body req = Dict payload"
    and "\<not> in_empty_values (dict_get payload f)"
    and "to_decimal conv (py_str (dict_get payload f)) = Some d"
  shows "(dec_less d 0 \<or> dec_greater d 100 \<longrightarrow>
            (\<exists>errs. decimal_clean conv (dict_get payload f) = Errors errs \<and> errs \<noteq> []
                \<and> (date_clean conv (dict_get payload ''audit_date'') \<noteq> Raises \<longrightarrow>
                     audit_create_post conv s req
                       = (JsonFailure 400 (audit_form_errors conv s (dict_get payload)), s)
                     \<and> (f, Codes errs) \<in> set (audit_form_errors conv s (dict_get payload)))))
       \<and> (- 2 \<le> exponent d
           \<and> (coefficient d = 0 \<or> (\<not> dec_less d 100 \<and> \<not> dec_greater d 100)) \<longrightarrow>
            decimal_clean conv (dict_get payload f) = Clean d
            \<and> f \<notin> set (map fst (audit_form_errors conv s (dict_get payload))))"
proof (intro conjI impI)
  assume out: "dec_less d 0 \<or> dec_greater d 100"
  from decimal_clean_out_of_range [OF assms(4,5) out]
  obtain errs where e: "decimal_clean conv (dict_get payload f) = Errors errs" "errs \<noteq> []"
    by blast
  have n: "audit_form_instance conv s (dict_get payload) = None"
  proof (cases "audit_form_instance conv s (dict_get payload)")
    case (Some a)
    then have "decimal_clean conv (dict_get payload f) \<noteq> Errors errs"
      using assms(1) by (auto simp add: instance_Some_iff)
    with e(1) show ?thesis by simp
  qed simp
  have m: "(f, Codes errs) \<in> set (audit_form_errors conv s (dict_get payload))"
    using assms(1)
  proof
    assume "f = ''overall_score_percentage''"
    with e show ?thesis by (simp add: audit_form_errors_def audit_field_errors_def)
  next
    assume "f = ''standard_required''"
    with e show ?thesis by (simp add: audit_form_errors_def audit_field_errors_def)
  qed
  show "\<exists>errs. decimal_clean conv (dict_get payload f) = Errors errs \<and> errs \<noteq> []
                \<and> (date_clean conv (dict_get payload ''audit_date'') \<noteq> Raises \<longrightarrow>
                     audit_create_post conv s req
                       = (JsonFailure 400 (audit_form_errors conv s (dict_get payload)), s)
                     \<and> (f, Codes errs) \<in> set (audit_form_errors conv s (dict_get payload)))"
    using e m create_invalid [OF assms(2,3) n] by blast
next
  assume "- 2 \<le> exponent d
           \<and> (coefficient d = 0 \<or> (\<not> dec_less d 100 \<and> \<not> dec_greater d 100))"
  then show c: "decimal_clean conv (dict_get payload f) = Clean d"
    using decimal_clean_boundary [OF assms(4,5)] by blast
  show "f \<notin> set (map fst (audit_form_errors conv s (dict_get payload)))"
    using assms(1)
  proof
    assume "f = ''overall_score_percentage''"
    with c show ?thesis by (simp add: audit_form_errors_def audit_field_errors_def)
  next
    assume "f = ''standard_required''"
    with c show ?thesis by (simp add: audit_form_errors_def audit_field_errors_def)
  qed
qed

theorem score_percentage_bounds_witness:
  "(\<exists>errs. decimal_clean example_conversions (JStr ''100.01'') = Errors errs \<and> errs \<noteq> []
       \<and> audit_create_post example_conversions site_store
            (json_request (audit_payload(''overall_score_percentage'' \<mapsto> JStr ''100.01'')))
          = (JsonFailure 400 (audit_form_errors example_conversions site_store
               (dict_get (audit_payload(''overall_score_percentage'' \<mapsto> JStr ''100.01'')))),
             site_store)
       \<and> (''overall_score_percentage'', Codes errs)
            \<in> set (audit_form_errors example_conversions site_store
                 (dict_get (audit_payload(''overall_score_percentage'' \<mapsto> JStr ''100.01'')))))
   \<and> decimal_clean example_conversions (JStr ''100'') = Clean \<lparr>coefficient = 100, exponent = 0\<rparr>
   \<and> decimal_clean example_conversions (JStr ''0'') = Clean \<lparr>coefficient = 0, exponent = 0\<rparr>"
proof -
  let ?f = "''overall_score_percentage''"
  let ?over = "audit_payload(?f \<mapsto> JStr ''100.01'')"
  let ?top = "audit_payload(?f \<mapsto> JStr ''100'')"
  let ?zero = "audit_payload(?f \<mapsto> JStr ''0'')"
  have f: "?f = ''overall_score_percentage'' \<or> ?f = ''standard_required''" by simp
  have c: "content_type (json_request p) = ''application/json''" "body (json_request p) = Dict p"
    for p
    by (simp_all add: json_request_def)
  have g: "dict_get (audit_payload(?f \<mapsto> v)) ?f = v" for v
    by (simp add: dict_get_def)
  have n: "\<not> in_empty_values (JStr ''100.01'')" "\<not> in_empty_values (JStr ''100'')"
    "\<not> in_empty_values (JStr ''0'')"
    by simp_all
  have d: "to_decimal example_conversions (py_str (JStr ''100.01''))
             = Some \<lparr>coefficient = 10001, exponent = - 2\<rparr>"
    "to_decimal example_conversions (py_str (JStr ''100''))
             = Some \<lparr>coefficient = 100, exponent = 0\<rparr>"
    "to_decimal example_conversions (py_str (JStr ''0''))
             = Some \<lparr>coefficient = 0, exponent = 0\<rparr>"
    by (simp_all add: example_defs Let_def)
  have r: "date_clean example_conversions (dict_get ?over ''audit_date'') \<noteq> Raises"
    by (simp add: date_clean_def dict_get_def audit_payload_def example_defs)
  have o: "dec_less \<lparr>coefficient = 10001, exponent = - 2\<rparr> 0
           \<or> dec_greater \<lparr>coefficient = 10001, exponent = - 2\<rparr> 100"
    by (simp add: dec_less_def dec_greater_def)
  have b1: "- 2 \<le> exponent \<lparr>coefficient = 100, exponent = 0\<rparr>
      \<and> (coefficient \<lparr>coefficient = 100, exponent = 0\<rparr> = 0
         \<or> (\<not> dec_less \<lparr>coefficient = 100, exponent = 0\<rparr> 100
            \<and> \<not> dec_greater \<lparr>coefficient = 100, exponent = 0\<rparr> 100))"
    by (simp add: dec_less_def dec_greater_def)
  have b0: "- 2 \<le> exponent \<lparr>coefficient = 0, exponent = 0\<rparr>
      \<and> (coefficient \<lparr>coefficient = 0, exponent = 0\<rparr> = 0
         \<or> (\<not> dec_less \<lparr>coefficient = 0, exponent = 0\<rparr> 100
            \<and> \<not> dec_greater \<lparr>coefficient = 0, exponent = 0\<rparr> 100))"
    by simp
  note over = score_percentage_bounds [where f = ?f and req = "json_request ?over"
      and payload = ?over and conv = example_conversions and s = site_store,
      OF f c, unfolded g, OF n(1) d(1), THEN conjunct1, THEN mp, OF o]
  note top' = score_percentage_bounds [where f = ?f and req = "json_request ?top"
      and payload = ?top and conv = example_conversions and s = site_store,
      OF f c, unfolded g, OF n(2) d(2), THEN conjunct2, THEN mp, OF b1, THEN conjunct1]
  note zero = score_percentage_bounds [where f = ?f and req = "json_request ?zero"
      and payload = ?zero and conv = example_conversions and s = site_store,
      OF f c, unfolded g, OF n(3) d(3), THEN conjunct2, THEN mp, OF b0, THEN conjunct1]
  from over r top' zero show ?thesis by blast
qed

lemma integer_clean_in_range:
  assumes "\<not> in_empty_values v" and "to_int conv (py_str v) = Some n"
    and "\<forall>lo. fst (integer_field_range conv) = Some lo \<longrightarrow> lo \<le> n"
    and "\<forall>hi. snd (integer_field_range conv) = Some hi \<longrightarrow> n \<le> hi"
  shows "integer_clean conv v = Clean n"
  using assms by (auto simp add: integer_clean_def Let_def split: option.splits)

lemma model_backend_active: "model_backend accounts u p = Some usr \<Longrightarrow> is_active usr"
  by (auto simp add: model_backend_def split: option.splits if_splits)

text \<open>
  C5. With Django's default backend, a login attempt that carries a username and a password
  and is not for an active account with that password gets the generic response "Invalid
  username or password." and leaves the session as it was: for an unknown username, for a
  wrong password and also for a deactivated account with its right password. No JSON login
  is ever answered with "This account is inactive.": the branch of the view that would send
  it is not reached.
\<close>

theorem login_rejections_generic:
  assumes "credentials req = Inr (u, JStr p)" and "u \<noteq> []" and "p \<noteq> []"
    and "map_of accounts u = None
         \<or> (\<exists>pw active. map_of accounts u = Some (pw, active) \<and> (pw \<noteq> p \<or> \<not> active))"
  shows "login_post (model_backend accounts) rv req session
           = (if is_json req
              then JsonFailure 400 [(''__all__'', Message ''Invalid username or password.'')]
              else redirect rv ''audit:index'' [''Invalid username or password.''], session)
       \<and> fst (login_post (model_backend accounts) rv req' session')
           \<noteq> JsonFailure 400 [(''__all__'', Message ''This account is inactive.'')]"
proof -
  from assms(4) have "model_backend accounts u (JStr p) = None"
    by (auto simp add: model_backend_def)
  with assms(1,2,3) have 1: "login_post (model_backend accounts) rv req session
           = (if is_json req
              then JsonFailure 400 [(''__all__'', Message ''Invalid username or password.'')]
              else redirect rv ''audit:index'' [''Invalid username or password.''], session)"
    by (simp add: login_post_def)
  have 2: "fst (login_post (model_backend accounts) rv req' session')
           \<noteq> JsonFailure 400 [(''__all__'', Message ''This account is inactive.'')]"
  proof (cases "credentials req'")
    case (Inl r)
    then have "r \<noteq> JsonFailure 400 [(''__all__'', Message ''This account is inactive.'')]"
      by (auto simp add: credentials_def split: if_splits body.splits jval.splits)
    with Inl show ?thesis by (simp add: login_post_def)
  next
    case (Inr c)
    obtain u' p' where c: "c = (u', p')" by (cases c)
    show ?thesis
      using Inr c model_backend_active [of accounts u' p']
      by (auto simp add: login_post_def Let_def redirect_def split: option.splits)
  qed
  from 1 2 show ?thesis by (rule conjI)
qed

theorem login_rejections_generic_witness:
  "login_post (model_backend accounts0) app_urls
       (json_request [''username'' \<mapsto> JStr ''carol'', ''password'' \<mapsto> JStr ''guess'']) None
     = (JsonFailure 400 [(''__all__'', Message ''Invalid username or password.'')], None)
   \<and> login_post (model_backend accounts0) app_urls
       (json_request [''username'' \<mapsto> JStr ''alice'', ''password'' \<mapsto> JStr ''guess'']) None
     = (JsonFailure 400 [(''__all__'', Message ''Invalid username or password.'')], None)
   \<and> login_post (model_backend accounts0) app_urls
       (json_request [''username'' \<mapsto> JStr ''bob'', ''password'' \<mapsto> JStr ''hunter2'']) None
     = (JsonFailure 400 [(''__all__'', Message ''Invalid username or password.'')], None)"
proof -
  let ?carol = "json_request [''username'' \<mapsto> JStr ''carol'', ''password'' \<mapsto> JStr ''guess'']"
  let ?alice = "json_request [''username'' \<mapsto> JStr ''alice'', ''password'' \<mapsto> JStr ''guess'']"
  let ?bob = "json_request [''username'' \<mapsto> JStr ''bob'', ''password'' \<mapsto> JStr ''hunter2'']"
  have c: "credentials ?carol = Inr (''carol'', JStr ''guess'')"
    "credentials ?alice = Inr (''alice'', JStr ''guess'')"
    "credentials ?bob = Inr (''bob'', JStr ''hunter2'')"
    by (simp_all add: credentials_def json_request_def is_json_def dict_get_def py_or_def
        strip_def is_space_def)
  have j: "is_json ?carol" "is_json ?alice" "is_json ?bob"
    by (simp_all add: is_json_def json_request_def)
  have n: "''carol'' \<noteq> []" "''alice'' \<noteq> []" "''bob'' \<noteq> []" "''guess'' \<noteq> []"
    "''hunter2'' \<noteq> []"
    by simp_all
  have a: "map_of accounts0 ''carol'' = None
           \<or> (\<exists>pw active. map_of accounts0 ''carol'' = Some (pw, active)
                \<and> (pw \<noteq> ''guess'' \<or> \<not> active))"
    "map_of accounts0 ''alice'' = None
           \<or> (\<exists>pw active. map_of accounts0 ''alice'' = Some (pw, active)
                \<and> (pw \<noteq> ''guess'' \<or> \<not> active))"
    "map_of accounts0 ''bob'' = None
           \<or> (\<exists>pw active. map_of accounts0 ''bob'' = Some (pw, active)
                \<and> (pw \<noteq> ''hunter2'' \<or> \<not> active))"
    by (auto simp add: accounts0_def)
  note 1 = login_rejections_generic [OF c(1) n(1) n(4) a(1), where rv = app_urls
      and session = None, THEN conjunct1, unfolded if_P [OF j(1)]]
  note 2 = login_rejections_generic [OF c(2) n(2) n(4) a(2), where rv = app_urls
      and session = None, THEN conjunct1, unfolded if_P [OF j(2)]]
  note 3 = login_rejections_generic [OF c(3) n(3) n(5) a(3), where rv = app_urls
      and session = None, THEN conjunct1, unfolded if_P [OF j(3)]]
  from 1 2 3 show ?thesis by (intro conjI)
qed

lemma instance_Some_fields:
  "audit_form_instance conv s data = Some a \<longleftrightarrow>
     project_clean conv s (data ''project'') = Clean (audit_project a)
   \<and> date_clean conv (data ''audit_date'') = Clean (audit_date a)
   \<and> choice_clean AUDIT_TYPES (data ''audit_type'') = Clean (audit_type a)
   \<and> required_char_clean 50 (data ''audit_number'') = Clean (audit_number a)
   \<and> required_char_clean 200 (data ''performed_by'') = Clean (performed_by a)
   \<and> required_char_clean 100 (data ''report_number'') = Clean (report_number a)
   \<and> decimal_clean conv (data ''overall_score_percentage'') = Clean (overall_score_percentage a)
   \<and> decimal_clean conv (data ''standard_required'') = Clean (standard_required a)
   \<and> integer_clean conv (data ''improvement_notices'') = Clean (improvement_notices a)
   \<and> integer_clean conv (data ''contravention_notices'') = Clean (contravention_notices a)
   \<and> integer_clean conv (data ''prohibition_notices'') = Clean (prohibition_notices a)
   \<and> audit_id a = 0"
  by (simp add: instance_Some_iff)

lemma audit_form_errors_unfold:
  "audit_form_errors conv s data =
     map (\<lambda>(k, e). (k, Codes e)) (filter (\<lambda>(k, e). e \<noteq> [])
       [(''project'', errors_of (project_clean conv s (data ''project''))),
        (''audit_date'', errors_of (date_clean conv (data ''audit_date''))),
        (''audit_type'', errors_of (choice_clean AUDIT_TYPES (data ''audit_type''))),
        (''audit_number'', errors_of (required_char_clean 50 (data ''audit_number''))),
        (''performed_by'', errors_of (required_char_clean 200 (data ''performed_by''))),
        (''report_number'', errors_of (required_char_clean 100 (data ''report_number''))),
        (''overall_score_percentage'',
           errors_of (decimal_clean conv (data ''overall_score_percentage''))),
        (''standard_required'', errors_of (decimal_clean conv (data ''standard_required''))),
        (''improvement_notices'', errors_of (integer_clean conv (data ''improvement_notices''))),
        (''contravention_notices'',
           errors_of (integer_clean conv (data ''contravention_notices''))),
        (''prohibition_notices'',
           errors_of (integer_clean conv (data ''prohibition_notices'')))])"
  unfolding audit_form_errors_def audit_field_errors_def by (rule refl)

lemma create_raises:
  assumes "content_type req = ''application/json''" and "body req = Dict payload"
    and "date_clean conv (dict_get payload ''audit_date'') = Raises"
  shows "audit_create_post conv s req = (ServerError, s)"
  using assms by (simp add: audit_create_post_def)

lemma project_missing:
  assumes "\<not> in_empty_values (data ''project'')"
    and "\<forall>k. to_pk conv (data ''project'') = Some k \<longrightarrow> k \<notin> set (map project_id (projects s))"
  shows "project_clean conv s (data ''project'') = Errors [InvalidChoice]"
  using assms by (auto simp add: project_clean_def split: option.splits)

text \<open>
  C9. A create-audit request either persists exactly one new audit, under a primary key no
  stored audit has, and answers with that key, or leaves the store as it was and does not
  answer with success. With a JSON object as the body, the form is valid exactly when every
  field cleans to a value, and then the audit built from the cleaned values is appended and
  its generated key returned. When a field has errors and cleaning raises no exception, the
  answer is a 400 whose mapping holds each failing field, in form order, with that field's
  errors and nothing else, it is not empty, and the store is unchanged; a project reference
  that names no stored project appears there as the first entry, an invalid choice under
  project. When the audit date of the payload is not a string (and not empty), cleaning
  raises: the request ends in a server error with no mapping, and the store is unchanged.
\<close>

theorem audit_create_atomic:
  "((\<exists>a'. audit_create_post conv s req
           = (JsonSuccess [(''id'', JInt (audit_id a'))], s\<lparr>audits := audits s @ [a']\<rparr>)
        \<and> audit_id a' \<notin> set (map audit_id (audits s)))
     \<or> (snd (audit_create_post conv s req) = s
         \<and> (\<forall>x. fst (audit_create_post conv s req) \<noteq> JsonSuccess x)))
   \<and> (content_type req = ''application/json'' \<and> body req = Dict payload \<longrightarrow>
        (audit_form_instance conv s (dict_get payload) = Some a \<longleftrightarrow>
           project_clean conv s (dict_get payload ''project'') = Clean (audit_project a)
         \<and> date_clean conv (dict_get payload ''audit_date'') = Clean (audit_date a)
         \<and> choice_clean AUDIT_TYPES (dict_get payload ''audit_type'') = Clean (audit_type a)
         \<and> required_char_clean 50 (dict_get payload ''audit_number'') = Clean (audit_number a)
         \<and> required_char_clean 200 (dict_get payload ''performed_by'') = Clean (performed_by a)
         \<and> required_char_clean 100 (dict_get payload ''report_number'')
             = Clean (report_number a)
         \<and> decimal_clean conv (dict_get payload ''overall_score_percentage'')
             = Clean (overall_score_percentage a)
         \<and> decimal_clean conv (dict_get payload ''standard_required'')
             = Clean (standard_required a)
         \<and> integer_clean conv (dict_get payload ''improvement_notices'')
             = Clean (improvement_notices a)
         \<and> integer_clean conv (dict_get payload ''contravention_notices'')
             = Clean (contravention_notices a)
         \<and> integer_clean conv (dict_get payload ''prohibition_notices'')
             = Clean (prohibition_notices a)
         \<and> audit_id a = 0)
      \<and> (audit_form_instance conv s (dict_get payload) = Some a \<longrightarrow>
           audit_create_post conv s req
             = (JsonSuccess [(''id'', JInt (next_id (map audit_id (audits s))))],
                s\<lparr>audits := audits s @ [a\<lparr>audit_id := next_id (map audit_id (audits s))\<rparr>]\<rparr>))
      \<and> (audit_form_instance conv s (dict_get payload) = None
           \<and> date_clean conv (dict_get payload ''audit_date'') \<noteq> Raises \<longrightarrow>
           (\<exists>errs. audit_create_post conv s req = (JsonFailure 400 errs, s) \<and> errs \<noteq> []
              \<and> errs = map (\<lambda>(k, e). (k, Codes e)) (filter (\<lambda>(k, e). e \<noteq> [])
                  [(''project'', errors_of (project_clean conv s (dict_get payload ''project''))),
                   (''audit_date'', errors_of (date_clean conv (dict_get payload ''audit_date''))),
                   (''audit_type'',
                      errors_of (choice_clean AUDIT_TYPES (dict_get payload ''audit_type''))),
                   (''audit_number'',
                      errors_of (required_char_clean 50 (dict_get payload ''audit_number''))),
                   (''performed_by'',
                      errors_of (required_char_clean 200 (dict_get payload ''performed_by''))),
                   (''report_number'',
                      errors_of (required_char_clean 100 (dict_get payload ''report_number''))),
                   (''overall_score_percentage'',
                      errors_of (decimal_clean conv
                        (dict_get payload ''overall_score_percentage''))),
                   (''standard_required'',
                      errors_of (decimal_clean conv (dict_get payload ''standard_required''))),
                   (''improvement_notices'',
                      errors_of (integer_clean conv (dict_get payload ''improvement_notices''))),
                   (''contravention_notices'',
                      errors_of (integer_clean conv
                        (dict_get payload ''contravention_notices''))),
                   (''prohibition_notices'',
                      errors_of (integer_clean conv
                        (dict_get payload ''prohibition_notices'')))])))
      \<and> (\<not> in_empty_values (dict_get payload ''project'')
           \<and> (\<forall>k. to_pk conv (dict_get payload ''project'') = Some k
                  \<longrightarrow> k \<notin> set (map project_id (projects s)))
           \<and> date_clean conv (dict_get payload ''audit_date'') \<noteq> Raises \<longrightarrow>
           audit_form_instance conv s (dict_get payload) = None
           \<and> (\<exists>others. audit_create_post conv s req
                  = (JsonFailure 400 ((''project'', Codes [InvalidChoice]) # others), s)))
      \<and> (date_clean conv (dict_get payload ''audit_date'') = Raises \<longrightarrow>
           audit_form_instance conv s (dict_get payload) = None
           \<and> audit_create_post conv s req = (ServerError, s)))"
proof -
  have 1: "audit_form_instance conv s (dict_get payload) = Some a \<longleftrightarrow>
           project_clean conv s (dict_get payload ''project'') = Clean (audit_project a)
         \<and> date_clean conv (dict_get payload ''audit_date'') = Clean (audit_date a)
         \<and> choice_clean AUDIT_TYPES (dict_get payload ''audit_type'') = Clean (audit_type a)
         \<and> required_char_clean 50 (dict_get payload ''audit_number'') = Clean (audit_number a)
         \<and> required_char_clean 200 (dict_get payload ''performed_by'') = Clean (performed_by a)
         \<and> required_char_clean 100 (dict_get payload ''report_number'')
             = Clean (report_number a)
         \<and> decimal_clean conv (dict_get payload ''overall_score_percentage'')
             = Clean (overall_score_percentage a)
         \<and> decimal_clean conv (dict_get payload ''standard_required'')
             = Clean (standard_required a)
         \<and> integer_clean conv (dict_get payload ''improvement_notices'')
             = Clean (improvement_notices a)
         \<and> integer_clean conv (dict_get payload ''contravention_notices'')
             = Clean (contravention_notices a)
         \<and> integer_clean conv (dict_get payload ''prohibition_notices'')
             = Clean (prohibition_notices a)
         \<and> audit_id a = 0"
    by (rule instance_Some_fields)
  have 2: "audit_create_post conv s req
             = (JsonSuccess [(''id'', JInt (next_id (map audit_id (audits s))))],
                s\<lparr>audits := audits s @ [a\<lparr>audit_id := next_id (map audit_id (audits s))\<rparr>]\<rparr>)"
    if "content_type req = ''application/json''" "body req = Dict payload"
      "audit_form_instance conv s (dict_get payload) = Some a"
    using that by (rule create_valid)
  have 3: "\<exists>errs. audit_create_post conv s req = (JsonFailure 400 errs, s) \<and> errs \<noteq> []
              \<and> errs = audit_form_errors conv s (dict_get payload)"
    if "content_type req = ''application/json''" "body req = Dict payload"
      "audit_form_instance conv s (dict_get payload) = None"
      "date_clean conv (dict_get payload ''audit_date'') \<noteq> Raises"
    using create_invalid [OF that] instance_None_errors [OF that(3,4)] by blast
  have 4: "audit_form_instance conv s (dict_get payload) = None
           \<and> (\<exists>others. audit_create_post conv s req
                  = (JsonFailure 400 ((''project'', Codes [InvalidChoice]) # others), s))"
    if h: "content_type req = ''application/json''" "body req = Dict payload"
      and e: "\<not> in_empty_values (dict_get payload ''project'')"
      and m: "\<forall>k. to_pk conv (dict_get payload ''project'') = Some k
                  \<longrightarrow> k \<notin> set (map project_id (projects s))"
      and d: "date_clean conv (dict_get payload ''audit_date'') \<noteq> Raises"
  proof -
    have p: "project_clean conv s (dict_get payload ''project'') = Errors [InvalidChoice]"
      using e m by (rule project_missing)
    then have n: "audit_form_instance conv s (dict_get payload) = None"
      by (simp add: audit_form_instance_def)
    have "\<exists>others. audit_form_errors conv s (dict_get payload)
                      = (''project'', Codes [InvalidChoice]) # others"
      using p by (simp add: audit_form_errors_def audit_field_errors_def)
    with create_invalid [OF h n d] n show ?thesis by auto
  qed
  have 5: "audit_form_instance conv s (dict_get payload) = None
           \<and> audit_create_post conv s req = (ServerError, s)"
    if h: "content_type req = ''application/json''" "body req = Dict payload"
      and r: "date_clean conv (dict_get payload ''audit_date'') = Raises"
  proof -
    have "audit_form_instance conv s (dict_get payload) \<noteq> Some x" for x
      using r by (simp add: instance_Some_iff)
    then have "audit_form_instance conv s (dict_get payload) = None" by auto
    with create_raises [OF h r] show ?thesis by simp
  qed
  note u = audit_form_errors_unfold [of conv s "dict_get payload"]
  from create_store [of conv s req] 1 2 3 [unfolded u] 4 5 show ?thesis by blast
qed

theorem audit_create_atomic_witness:
  "audit_create_post example_conversions site_store (json_request audit_payload)
     = (JsonSuccess [(''id'', JInt 2)],
        site_store\<lparr>audits := audits site_store @
          [\<lparr>audit_id = 2, audit_project = 1, audit_date = (2026, 1, 2), audit_type = ''OHS'',
            audit_number = ''002'', performed_by = ''Creator'', report_number = ''R-002'',
            overall_score_percentage = \<lparr>coefficient = 9000, exponent = -2\<rparr>,
            standard_required = \<lparr>coefficient = 7500, exponent = -2\<rparr>,
            improvement_notices = 0, contravention_notices = 0,
            prohibition_notices = 0\<rparr>]\<rparr>)
   \<and> audit_create_post example_conversions site_store
        (json_request (audit_payload(''project'' \<mapsto> JStr ''99'')))
      = (JsonFailure 400 [(''project'', Codes [InvalidChoice])], site_store)
   \<and> audit_create_post example_conversions site_store
        (json_request (audit_payload(''audit_date'' \<mapsto> JInt 20260102)))
      = (ServerError, site_store)"
proof -
  let ?a = "\<lparr>audit_id = 0, audit_project = 1, audit_date = (2026, 1, 2), audit_type = ''OHS'',
                audit_number = ''002'', performed_by = ''Creator'', report_number = ''R-002'',
                overall_score_percentage = \<lparr>coefficient = 9000, exponent = -2\<rparr>,
                standard_required = \<lparr>coefficient = 7500, exponent = -2\<rparr>,
                improvement_notices = 0, contravention_notices = 0,
                prohibition_notices = 0\<rparr>"
  let ?bad = "audit_payload(''project'' \<mapsto> JStr ''99'')"
  let ?num = "audit_payload(''audit_date'' \<mapsto> JInt 20260102)"
  have c: "content_type (json_request p) = ''application/json'' \<and> body (json_request p) = Dict p"
    for p
    by (simp add: json_request_def)
  have i: "audit_form_instance example_conversions site_store (dict_get audit_payload) = Some ?a"
    by (simp add: audit_form_instance_def audit_form_defs example_defs Let_def dict_get_def
        audit_payload_def site_store_def test_project_def)
  have n: "next_id (map audit_id (audits site_store)) = 2"
    by (simp add: next_id_def site_store_def sample_audit_def)
  have e: "\<not> in_empty_values (dict_get ?bad ''project'')"
    by (simp add: dict_get_def)
  have m: "\<forall>k. to_pk example_conversions (dict_get ?bad ''project'') = Some k
             \<longrightarrow> k \<notin> set (map project_id (projects site_store))"
    by (simp add: dict_get_def example_defs site_store_def test_project_def)
  have d: "date_clean example_conversions (dict_get ?bad ''audit_date'') \<noteq> Raises"
    by (simp add: date_clean_def dict_get_def audit_payload_def example_defs)
  have r: "date_clean example_conversions (dict_get ?num ''audit_date'') = Raises"
    by (simp add: date_clean_def dict_get_def)
  note good = audit_create_atomic [where conv = example_conversions and s = site_store
      and req = "json_request audit_payload" and payload = audit_payload and a = ?a,
      THEN conjunct2, THEN mp, OF c, THEN conjunct2, THEN conjunct1, THEN mp, OF i]
  note bad = audit_create_atomic [where conv = example_conversions and s = site_store
      and req = "json_request ?bad" and payload = ?bad,
      THEN conjunct2, THEN mp, OF c, THEN conjunct2, THEN conjunct2]
  note bad_none = bad [THEN conjunct2, THEN conjunct1, THEN mp, OF conjI [OF e conjI [OF m d]],
      THEN conjunct1]
  note bad_errs = bad [THEN conjunct1, THEN mp, OF conjI [OF bad_none d]]
  note num = audit_create_atomic [where conv = example_conversions and s = site_store
      and req = "json_request ?num" and payload = ?num,
      THEN conjunct2, THEN mp, OF c, THEN conjunct2, THEN conjunct2, THEN conjunct2,
      THEN conjunct2, THEN mp, OF r, THEN conjunct2]
  have 1: "audit_create_post example_conversions site_store (json_request audit_payload)
     = (JsonSuccess [(''id'', JInt 2)],
        site_store\<lparr>audits := audits site_store @ [?a\<lparr>audit_id := 2\<rparr>]\<rparr>)"
    using good by (simp only: n)
  have 2: "audit_create_post example_conversions site_store (json_request ?bad)
      = (JsonFailure 400 [(''project'', Codes [InvalidChoice])], site_store)"
    using bad_errs
    by (simp add: audit_form_defs example_defs Let_def dict_get_def audit_payload_def
        site_store_def test_project_def)
  from 1 2 num show ?thesis by simp
qed

text \<open>
  C3, as the code has it. A notice counter is accepted whenever its text reads as an integer
  within the range of the database backend, whether negative or not: in a payload whose
  form is valid, replacing one of the three counters by such a value gives a valid form
  again, whose instance holds that value, and the create-audit request with that payload
  persists the audit with the value and answers with its generated key.
\<close>

theorem notice_counters_any_integer:
  assumes "\<not> in_empty_values v" and "to_int conv (py_str v) = Some n"
    and "\<forall>lo. fst (integer_field_range conv) = Some lo \<longrightarrow> lo \<le> n"
    and "\<forall>hi. snd (integer_field_range conv) = Some hi \<longrightarrow> n \<le> hi"
    and "audit_form_instance conv s data = Some a"
    and "content_type req = ''application/json''" and "body req = Dict payload"
  shows "integer_clean conv v = Clean n
       \<and> audit_form_instance conv s (data(''improvement_notices'' := v))
           = Some (a\<lparr>improvement_notices := n\<rparr>)
       \<and> audit_form_instance conv s (data(''contravention_notices'' := v))
           = Some (a\<lparr>contravention_notices := n\<rparr>)
       \<and> audit_form_instance conv s (data(''prohibition_notices'' := v))
           = Some (a\<lparr>prohibition_notices := n\<rparr>)
       \<and> (dict_get payload = data(''improvement_notices'' := v) \<longrightarrow>
            audit_create_post conv s req
              = (JsonSuccess [(''id'', JInt (next_id (map audit_id (audits s))))],
                 s\<lparr>audits := audits s @
                     [a\<lparr>improvement_notices := n,
                        audit_id := next_id (map audit_id (audits s))\<rparr>]\<rparr>))
       \<and> (dict_get payload = data(''contravention_notices'' := v) \<longrightarrow>
            audit_create_post conv s req
              = (JsonSuccess [(''id'', JInt (next_id (map audit_id (audits s))))],
                 s\<lparr>audits := audits s @
                     [a\<lparr>contravention_notices := n,
                        audit_id := next_id (map audit_id (audits s))\<rparr>]\<rparr>))
       \<and> (dict_get payload = data(''prohibition_notices'' := v) \<longrightarrow>
            audit_create_post conv s req
              = (JsonSuccess [(''id'', JInt (next_id (map audit_id (audits s))))],
                 s\<lparr>audits := audits s @
                     [a\<lparr>prohibition_notices := n,
                        audit_id := next_id (map audit_id (audits s))\<rparr>]\<rparr>))"
proof -
  note c = integer_clean_in_range [OF assms(1-4)]
  note i = assms(5) [unfolded instance_Some_iff]
  have 1: "audit_form_instance conv s (data(''improvement_notices'' := v))
           = Some (a\<lparr>improvement_notices := n\<rparr>)"
    unfolding instance_Some_iff using i c by simp
  have 2: "audit_form_instance conv s (data(''contravention_notices'' := v))
           = Some (a\<lparr>contravention_notices := n\<rparr>)"
    unfolding instance_Some_iff using i c by simp
  have 3: "audit_form_instance conv s (data(''prohibition_notices'' := v))
           = Some (a\<lparr>prohibition_notices := n\<rparr>)"
    unfolding instance_Some_iff using i c by simp
  have p: "audit_create_post conv s req
              = (JsonSuccess [(''id'', JInt (next_id (map audit_id (audits s))))],
                 s\<lparr>audits := audits s @ [b\<lparr>audit_id := next_id (map audit_id (audits s))\<rparr>]\<rparr>)"
    if "audit_form_instance conv s (dict_get payload) = Some b" for b
    using assms(6,7) that by (rule create_valid)
  have 4: "dict_get payload = data(''improvement_notices'' := v) \<longrightarrow>
            audit_create_post conv s req
              = (JsonSuccess [(''id'', JInt (next_id (map audit_id (audits s))))],
                 s\<lparr>audits := audits s @
                     [a\<lparr>improvement_notices := n,
                        audit_id := next_id (map audit_id (audits s))\<rparr>]\<rparr>)"
    using p [of "a\<lparr>improvement_notices := n\<rparr>"] 1 by simp
  have 5: "dict_get payload = data(''contravention_notices'' := v) \<longrightarrow>
            audit_create_post conv s req
              = (JsonSuccess [(''id'', JInt (next_id (map audit_id (audits s))))],
                 s\<lparr>audits := audits s @
                     [a\<lparr>contravention_notices := n,
                        audit_id := next_id (map audit_id (audits s))\<rparr>]\<rparr>)"
    using p [of "a\<lparr>contravention_notices := n\<rparr>"] 2 by simp
  have 6: "dict_get payload = data(''prohibition_notices'' := v) \<longrightarrow>
            audit_create_post conv s req
              = (JsonSuccess [(''id'', JInt (next_id (map audit_id (audits s))))],
                 s\<lparr>audits := audits s @
                     [a\<lparr>prohibition_notices := n,
                        audit_id := next_id (map audit_id (audits s))\<rparr>]\<rparr>)"
    using p [of "a\<lparr>prohibition_notices := n\<rparr>"] 3 by simp
  from c 1 2 3 4 5 6 show ?thesis by (intro conjI)
qed

theorem notice_counters_any_integer_witness:
  "integer_clean example_conversions (JInt (- 1)) = Clean (- 1)
   \<and> audit_create_post example_conversions site_store (json_request negative_notice_payload)
     = (JsonSuccess [(''id'', JInt 2)],
        site_store\<lparr>audits := audits site_store @
          [\<lparr>audit_id = 2, audit_project = 1, audit_date = (2026, 1, 2), audit_type = ''OHS'',
            audit_number = ''002'', performed_by = ''Creator'', report_number = ''R-002'',
            overall_score_percentage = \<lparr>coefficient = 9000, exponent = -2\<rparr>,
            standard_required = \<lparr>coefficient = 7500, exponent = -2\<rparr>,
            improvement_notices = - 1, contravention_notices = 0,
            prohibition_notices = 0\<rparr>]\<rparr>)"
proof -
  let ?a = "\<lparr>audit_id = 0, audit_project = 1, audit_date = (2026, 1, 2), audit_type = ''OHS'',
                audit_number = ''002'', performed_by = ''Creator'', report_number = ''R-002'',
                overall_score_percentage = \<lparr>coefficient = 9000, exponent = -2\<rparr>,
                standard_required = \<lparr>coefficient = 7500, exponent = -2\<rparr>,
                improvement_notices = 0, contravention_notices = 0,
                prohibition_notices = 0\<rparr>"
  have e: "\<not> in_empty_values (JInt (- 1))" by simp
  have t: "to_int example_conversions (py_str (JInt (- 1))) = Some (- 1)"
    by (simp add: example_defs)
  have lo: "\<forall>lo. fst (integer_field_range example_conversions) = Some lo \<longrightarrow> lo \<le> - 1"
    and hi: "\<forall>hi. snd (integer_field_range example_conversions) = Some hi \<longrightarrow> - 1 \<le> hi"
    by (simp_all add: example_conversions_def)
  have i: "audit_form_instance example_conversions site_store (dict_get audit_payload) = Some ?a"
    by (simp add: audit_form_instance_def audit_form_defs example_defs Let_def dict_get_def
        audit_payload_def site_store_def test_project_def)
  have c: "content_type (json_request negative_notice_payload) = ''application/json''"
    and b: "body (json_request negative_notice_payload) = Dict negative_notice_payload"
    by (simp_all add: json_request_def)
  have g: "dict_get negative_notice_payload
             = (dict_get audit_payload)(''improvement_notices'' := JInt (- 1))"
    by (rule ext) (simp add: dict_get_def negative_notice_payload_def)
  have n: "next_id (map audit_id (audits site_store)) = 2"
    by (simp add: next_id_def site_store_def sample_audit_def)
  note k = notice_counters_any_integer [OF e t lo hi i c b]
  note k1 = k [THEN conjunct1]
  note k5 = k [THEN conjunct2, THEN conjunct2, THEN conjunct2, THEN conjunct2, THEN conjunct1,
      THEN mp, OF g, unfolded n]
  from k1 k5 show ?thesis by simp
qed

theorem negative_notice_counter_counterexample:
  "audit_create_post example_conversions site_store (json_request negative_notice_payload)
     = (JsonSuccess [(''id'', JInt 2)],
        site_store\<lparr>audits := audits site_store @
          [\<lparr>audit_id = 2, audit_project = 1, audit_date = (2026, 1, 2), audit_type = ''OHS'',
            audit_number = ''002'', performed_by = ''Creator'', report_number = ''R-002'',
            overall_score_percentage = \<lparr>coefficient = 9000, exponent = -2\<rparr>,
            standard_required = \<lparr>coefficient = 7500, exponent = -2\<rparr>,
            improvement_notices = - 1, contravention_notices = 0,
            prohibition_notices = 0\<rparr>]\<rparr>)"
  by (simp add: audit_create_post_def insert_audit_def next_id_def json_request_def
      negative_notice_payload_def audit_form_instance_def audit_form_defs example_defs Let_def
      dict_get_def audit_payload_def site_store_def test_project_def sample_audit_def)

end
